theory Spec2Isabelle
  imports Complex_Main "HOL-Library.Multiset"
begin

section \<open>The force-graph hook: data model\<close>

text \<open>
  The hook \<^verbatim>\<open>useForceGraph\<close> keeps its state in mutable references. JavaScript
  numbers are modelled as real numbers: rounding, infinities and NaN are outside the
  model, and a division is only relied upon where the divisor is shown to be non-zero.

  The camera transform \<^verbatim>\<open>{ k, x, y }\<close> is the record \<open>transform\<close> with fields
  \<open>t_k\<close>, \<open>t_x\<close>, \<open>t_y\<close>; a \<^verbatim>\<open>NodePosition { x, y, vx, vy }\<close> is the record
  \<open>NodePosition\<close> with fields \<open>p_x\<close>, \<open>p_y\<close>, \<open>p_vx\<close>, \<open>p_vy\<close>.
\<close>

record transform =
  t_k :: real
  t_x :: real
  t_y :: real

record NodePosition =
  p_x :: real
  p_y :: real
  p_vx :: real
  p_vy :: real

text \<open>
  A node carries its id, its visual radius, the optional \<^verbatim>\<open>masteryScore\<close> and the
  \<^verbatim>\<open>type\<close> property that the host stores under the index signature
  (\<^verbatim>\<open>'subject'\<close>, \<^verbatim>\<open>'topic'\<close>, \<^verbatim>\<open>'question'\<close>). Colour and label play no part in
  layout, camera or hit-testing.
\<close>

record Node =
  node_id :: string
  radius :: real
  masteryScore :: "real option"
  node_type :: string

record Link =
  source :: string
  target :: string

record dimensions =
  width :: real
  height :: real

datatype LayoutMode = graph | orbit

type_synonym NodePositions = "string \<rightharpoonup> NodePosition"

text \<open>The camera: the current transform and the pending animated target (or null).\<close>

record camera =
  transform_current :: transform
  targetTransform :: "transform option"

section \<open>Camera operations\<close>

text \<open>
  A mouse or wheel event: client coordinates and the wheel delta. The canvas is
  given by the left/top corner of its bounding rectangle, \<open>None\<close> when the canvas
  reference is null.
\<close>

record pointer_event =
  clientX :: real
  clientY :: real
  deltaY :: real

type_synonym canvas_rect = "(real \<times> real) option"

text \<open>\<^verbatim>\<open>getMousePos(e, useTransform)\<close>.\<close>

definition getMousePos :: "canvas_rect \<Rightarrow> transform \<Rightarrow> pointer_event \<Rightarrow> bool \<Rightarrow> real \<times> real" where
  "getMousePos canvas tr e useTransform =
     (case canvas of
        None \<Rightarrow> (0, 0)
      | Some (rleft, rtop) \<Rightarrow>
          (let x = clientX e - rleft; y = clientY e - rtop
           in if useTransform then ((x - t_x tr) / t_k tr, (y - t_y tr) / t_k tr)
              else (x, y)))"

text \<open>\<^verbatim>\<open>handleWheel\<close>: cancels the pending target, then zooms about the pointer.\<close>

definition handleWheel :: "canvas_rect \<Rightarrow> pointer_event \<Rightarrow> camera \<Rightarrow> camera" where
  "handleWheel canvas e cam =
     (let cam1 = cam\<lparr>targetTransform := None\<rparr>
      in case canvas of
           None \<Rightarrow> cam1
         | Some _ \<Rightarrow>
             (let tr = transform_current cam1;
                  (x, y) = getMousePos canvas tr e False;
                  factor = 1 - deltaY e * 0.001;
                  newScale = max 0.2 (min 5 (t_k tr * factor));
                  k = newScale / t_k tr
              in cam1\<lparr>transform_current :=
                        \<lparr>t_k = newScale,
                         t_x = x - (x - t_x tr) * k,
                         t_y = y - (y - t_y tr) * k\<rparr>\<rparr>))"

text \<open>\<^verbatim>\<open>zoom(factor)\<close>, with \<^verbatim>\<open>zoomIn = zoom(1.3)\<close> and \<^verbatim>\<open>zoomOut = zoom(1 / 1.3)\<close>.\<close>

definition zoom :: "dimensions \<Rightarrow> real \<Rightarrow> camera \<Rightarrow> camera" where
  "zoom dims factor cam =
     (let tr = transform_current cam;
          newScale = max 0.2 (min 5 (t_k tr * factor));
          k = newScale / t_k tr
      in cam\<lparr>targetTransform :=
                Some \<lparr>t_k = newScale,
                      t_x = width dims / 2 - (width dims / 2 - t_x tr) * k,
                      t_y = height dims / 2 - (height dims / 2 - t_y tr) * k\<rparr>\<rparr>)"

definition zoomIn :: "dimensions \<Rightarrow> camera \<Rightarrow> camera" where
  "zoomIn dims cam = zoom dims 1.3 cam"

definition zoomOut :: "dimensions \<Rightarrow> camera \<Rightarrow> camera" where
  "zoomOut dims cam = zoom dims (1 / 1.3) cam"

text \<open>The camera part of one frame of \<^verbatim>\<open>loop\<close>: blend towards the pending target.\<close>

definition loop_camera :: "camera \<Rightarrow> camera" where
  "loop_camera cam =
     (case targetTransform cam of
        None \<Rightarrow> cam
      | Some tgt \<Rightarrow>
          (let t = 0.08;
               tr = transform_current cam;
               tr' = \<lparr>t_k = t_k tr * (1 - t) + t_k tgt * t,
                      t_x = t_x tr * (1 - t) + t_x tgt * t,
                      t_y = t_y tr * (1 - t) + t_y tgt * t\<rparr>;
               dx = \<bar>t_x tr' - t_x tgt\<bar>;
               dy = \<bar>t_y tr' - t_y tgt\<bar>;
               dk = \<bar>t_k tr' - t_k tgt\<bar>
           in if dx < 0.1 \<and> dy < 0.1 \<and> dk < 0.001
              then \<lparr>transform_current = tgt, targetTransform = None\<rparr>
              else cam\<lparr>transform_current := tr'\<rparr>))"

text \<open>The model-space point that the transform shows at a screen point.\<close>

definition model_point :: "transform \<Rightarrow> real \<times> real \<Rightarrow> real \<times> real" where
  "model_point tr p = ((fst p - t_x tr) / t_k tr, (snd p - t_y tr) / t_k tr)"

section \<open>Fitting the view: \<^verbatim>\<open>resetView\<close>\<close>

text \<open>
  \<^verbatim>\<open>Math.min(...xs)\<close> and \<^verbatim>\<open>Math.max(...xs)\<close>: on an empty argument list JavaScript
  returns \<^verbatim>\<open>Infinity\<close> and \<^verbatim>\<open>-Infinity\<close>, which is \<open>None\<close> here.
\<close>

fun Math_min :: "real list \<Rightarrow> real option" where
  "Math_min [] = None"
| "Math_min (v # vs) = Some (fold min vs v)"

fun Math_max :: "real list \<Rightarrow> real option" where
  "Math_max [] = None"
| "Math_max (v # vs) = Some (fold max vs v)"

text \<open>
  The target written by \<^verbatim>\<open>resetView\<close>. When \<^verbatim>\<open>ys\<close> is empty but \<^verbatim>\<open>xs\<close> is not, the
  source computes with \<^verbatim>\<open>Infinity\<close> and stores a target whose \<^verbatim>\<open>y\<close> is NaN: that
  outcome is \<open>NonFinite\<close>.
\<close>

datatype fit_result = Target transform | NonFinite

definition identity_transform :: transform where
  "identity_transform = \<lparr>t_k = 1, t_x = 0, t_y = 0\<rparr>"

text \<open>\<^verbatim>\<open>nodePositions.current[n.id]?.x || 0\<close> and the same for \<^verbatim>\<open>y\<close>.\<close>

definition coord_or_0 :: "(NodePosition \<Rightarrow> real) \<Rightarrow> NodePositions \<Rightarrow> Node \<Rightarrow> real" where
  "coord_or_0 sel positions n = (case positions (node_id n) of None \<Rightarrow> 0 | Some pos \<Rightarrow> sel pos)"

text \<open>\<^verbatim>\<open>nodesToFrame.map(...).filter(Boolean)\<close>: zeros are dropped.\<close>

definition frame_coords :: "(NodePosition \<Rightarrow> real) \<Rightarrow> NodePositions \<Rightarrow> Node list \<Rightarrow> real list" where
  "frame_coords sel positions nodesToFrame =
     filter (\<lambda>v. v \<noteq> 0) (map (coord_or_0 sel positions) nodesToFrame)"

definition fit_bounds :: "dimensions \<Rightarrow> real list \<Rightarrow> real list \<Rightarrow> fit_result" where
  "fit_bounds dims xs ys =
     (case (Math_min xs, Math_max xs, Math_min ys, Math_max ys) of
        (Some minX, Some maxX, Some minY, Some maxY) \<Rightarrow>
          (let graphWidth = maxX - minX;
               graphHeight = maxY - minY;
               scaleX = width dims / (graphWidth + 100);
               scaleY = height dims / (graphHeight + 100);
               newScale = min (min scaleX scaleY) 1.5
           in Target \<lparr>t_k = newScale,
                      t_x = width dims / 2 - ((minX + maxX) / 2) * newScale,
                      t_y = height dims / 2 - ((minY + maxY) / 2) * newScale\<rparr>)
      | _ \<Rightarrow> NonFinite)"

definition nodesToFrame :: "Node list \<Rightarrow> Node option \<Rightarrow> string set \<Rightarrow> Node list" where
  "nodesToFrame nodes weakestPathNode pathNodeIds =
     (if weakestPathNode \<noteq> None
      then filter (\<lambda>n. node_id n \<in> pathNodeIds) nodes else nodes)"

definition resetView_target ::
  "Node list \<Rightarrow> dimensions \<Rightarrow> LayoutMode \<Rightarrow> Node option \<Rightarrow> string set \<Rightarrow> NodePositions
     \<Rightarrow> fit_result" where
  "resetView_target nodes dims layoutMode weakestPathNode pathNodeIds positions =
     (if nodes = [] \<or> width dims = 0 then Target identity_transform
      else if layoutMode = graph \<or> weakestPathNode \<noteq> None then
        (let toFrame = nodesToFrame nodes weakestPathNode pathNodeIds
         in if toFrame = [] then Target identity_transform
            else
              (let xs = frame_coords p_x positions toFrame;
                   ys = frame_coords p_y positions toFrame
               in if xs = [] then Target identity_transform
                  else fit_bounds dims xs ys))
      else Target identity_transform)"

text \<open>
  \<^verbatim>\<open>resetView\<close> also clears the settled flag, but only when it falls through to its
  last statement: the three early returns leave the flag alone.
\<close>

definition resetView_isStable ::
  "Node list \<Rightarrow> dimensions \<Rightarrow> LayoutMode \<Rightarrow> Node option \<Rightarrow> string set \<Rightarrow> NodePositions
     \<Rightarrow> bool \<Rightarrow> bool" where
  "resetView_isStable nodes dims layoutMode weakestPathNode pathNodeIds positions isStable =
     (if nodes = [] \<or> width dims = 0 then isStable
      else if layoutMode = graph \<or> weakestPathNode \<noteq> None then
        (let toFrame = nodesToFrame nodes weakestPathNode pathNodeIds
         in if toFrame = [] then isStable
            else if frame_coords p_x positions toFrame = [] then isStable
            else if layoutMode = graph \<and> weakestPathNode = None then False else isStable)
      else isStable)"

section \<open>Hit-testing\<close>

text \<open>
  \<^verbatim>\<open>findNodeAtPos(x, y)\<close> takes a model-space point. The loop runs from the last node
  to the first and returns the first node that has a position and whose scaled hit
  circle contains the point; \<open>None\<close> is \<^verbatim>\<open>null\<close>.
\<close>

definition scaledHitRadius :: "transform \<Rightarrow> real \<Rightarrow> real" where
  "scaledHitRadius tr r = (r + 5) / t_k tr"

definition node_hit :: "transform \<Rightarrow> NodePositions \<Rightarrow> real \<Rightarrow> real \<Rightarrow> Node \<Rightarrow> bool" where
  "node_hit tr positions x y node =
     (case positions (node_id node) of
        None \<Rightarrow> False
      | Some pos \<Rightarrow>
          (let dx = x - p_x pos; dy = y - p_y pos
           in dx * dx + dy * dy < (scaledHitRadius tr (radius node))\<^sup>2))"

definition findNodeAtPos :: "transform \<Rightarrow> NodePositions \<Rightarrow> Node list \<Rightarrow> real \<Rightarrow> real \<Rightarrow> Node option" where
  "findNodeAtPos tr positions nodes x y = find (node_hit tr positions x y) (rev nodes)"

section \<open>The position store\<close>

text \<open>
  \<^verbatim>\<open>Math.random()\<close> is modelled by a sequence of draws \<open>rnd\<close> and the index of the next
  draw; each call reads \<open>rnd i\<close> and advances the index. JavaScript draws lie in the
  interval from 0 (inclusive) to 1 (exclusive).
\<close>

type_synonym random_draws = "nat \<Rightarrow> real"

definition unit_draws :: "random_draws \<Rightarrow> bool" where
  "unit_draws rnd \<longleftrightarrow> (\<forall>i. 0 \<le> rnd i \<and> rnd i < 1)"

text \<open>The entry created for a node that has none: two draws, zero velocity.\<close>

definition fresh_position :: "dimensions \<Rightarrow> real \<Rightarrow> real \<Rightarrow> NodePosition" where
  "fresh_position dims r1 r2 =
     \<lparr>p_x = width dims / 2 + (r1 - 0.5) * 100,
      p_y = height dims / 2 + (r2 - 0.5) * 100,
      p_vx = 0, p_vy = 0\<rparr>"

text \<open>
  The reconciling effect: \<^verbatim>\<open>newPositions\<close> starts empty, every node copies its existing
  entry of the old store or gets a fresh one, and the result replaces the store.
\<close>

fun reconcile_loop ::
  "random_draws \<Rightarrow> dimensions \<Rightarrow> NodePositions \<Rightarrow> Node list \<Rightarrow> NodePositions \<times> nat
     \<Rightarrow> NodePositions \<times> nat" where
  "reconcile_loop rnd dims old [] acc = acc"
| "reconcile_loop rnd dims old (node # rest) (newPositions, i) =
     (case old (node_id node) of
        Some existing \<Rightarrow>
          reconcile_loop rnd dims old rest (newPositions(node_id node \<mapsto> existing), i)
      | None \<Rightarrow>
          reconcile_loop rnd dims old rest
            (newPositions(node_id node \<mapsto> fresh_position dims (rnd i) (rnd (i + 1))), i + 2))"

definition reconcile ::
  "random_draws \<Rightarrow> nat \<Rightarrow> dimensions \<Rightarrow> NodePositions \<Rightarrow> Node list \<Rightarrow> NodePositions" where
  "reconcile rnd i dims old nodes = fst (reconcile_loop rnd dims old nodes (Map.empty, i))"

section \<open>Force-directed mode\<close>

definition REPULSION_STRENGTH :: real where "REPULSION_STRENGTH = -150"
definition LINK_STRENGTH :: real where "LINK_STRENGTH = 0.06"
definition LINK_DISTANCE :: real where "LINK_DISTANCE = 70"
definition CENTER_STRENGTH :: real where "CENTER_STRENGTH = 0.01"
definition DAMPING :: real where "DAMPING = 0.9"
definition ENERGY_THRESHOLD :: real where "ENERGY_THRESHOLD = 0.005"

text \<open>\<^verbatim>\<open>Math.sqrt(dx * dx + dy * dy) || 1\<close>: a zero distance is replaced by 1.\<close>

definition distance_or_1 :: "real \<Rightarrow> real \<Rightarrow> real" where
  "distance_or_1 dx dy = (let d = sqrt (dx * dx + dy * dy) in if d = 0 then 1 else d)"

definition repulsion_force :: "real \<Rightarrow> real" where
  "repulsion_force distance = REPULSION_STRENGTH / (distance * distance)"

definition link_force :: "real \<Rightarrow> real" where
  "link_force distance = (distance - LINK_DISTANCE) * LINK_STRENGTH"

text \<open>The body of the inner loop: \<^verbatim>\<open>posB\<close> pushes \<^verbatim>\<open>posA\<close> away.\<close>

definition repel :: "NodePosition \<Rightarrow> NodePosition \<Rightarrow> NodePosition" where
  "repel posA posB =
     (let dx = p_x posB - p_x posA;
          dy = p_y posB - p_y posA;
          distance = distance_or_1 dx dy;
          force = repulsion_force distance
      in posA\<lparr>p_vx := p_vx posA + (dx / distance) * force,
               p_vy := p_vy posA + (dy / distance) * force\<rparr>)"

text \<open>
  The body of the outer loop for \<^verbatim>\<open>nodeA\<close>: the pull to the centre, then the inner
  loop over all nodes. \<^verbatim>\<open>posA\<close> is the object stored under \<^verbatim>\<open>nodeA.id\<close>; the inner
  loop skips that id, so every \<^verbatim>\<open>posB\<close> is another object of the store.
\<close>

definition center_and_repel :: "Node list \<Rightarrow> dimensions \<Rightarrow> Node \<Rightarrow> NodePositions \<Rightarrow> NodePositions" where
  "center_and_repel nodes dims nodeA positions =
     (case positions (node_id nodeA) of
        None \<Rightarrow> positions
      | Some posA \<Rightarrow>
          (let posA1 = posA\<lparr>p_vx := p_vx posA + (width dims / 2 - p_x posA) * CENTER_STRENGTH,
                            p_vy := p_vy posA + (height dims / 2 - p_y posA) * CENTER_STRENGTH\<rparr>;
               posA2 = fold (\<lambda>nodeB a.
                          if node_id nodeA = node_id nodeB then a
                          else (case positions (node_id nodeB) of
                                  None \<Rightarrow> a
                                | Some posB \<Rightarrow> repel a posB))
                        nodes posA1
           in positions(node_id nodeA \<mapsto> posA2)))"

text \<open>
  The body of the loop over links. When a link has the same id at both ends,
  \<^verbatim>\<open>source\<close> and \<^verbatim>\<open>target\<close> are one object, so the target is read after the source
  has been written.
\<close>

definition spring :: "Link \<Rightarrow> NodePositions \<Rightarrow> NodePositions" where
  "spring link positions =
     (case (positions (source link), positions (target link)) of
        (Some src, Some tgt) \<Rightarrow>
          (let dx = p_x tgt - p_x src;
               dy = p_y tgt - p_y src;
               distance = distance_or_1 dx dy;
               force = link_force distance;
               fx = (dx / distance) * force;
               fy = (dy / distance) * force;
               positions1 = positions(source link \<mapsto>
                              src\<lparr>p_vx := p_vx src + fx, p_vy := p_vy src + fy\<rparr>)
           in (case positions1 (target link) of
                 None \<Rightarrow> positions1
               | Some tgt1 \<Rightarrow>
                   positions1(target link \<mapsto>
                     tgt1\<lparr>p_vx := p_vx tgt1 - fx, p_vy := p_vy tgt1 - fy\<rparr>)))
      | _ \<Rightarrow> positions)"

text \<open>The body of the last loop: damping, integration and the energy sum.\<close>

definition integrate :: "Node option \<Rightarrow> Node \<Rightarrow> NodePositions \<times> real \<Rightarrow> NodePositions \<times> real" where
  "integrate draggedNode node acc =
     (case acc of (positions, totalEnergy) \<Rightarrow>
        (case positions (node_id node) of
           None \<Rightarrow> acc
         | Some pos \<Rightarrow>
             if map_option node_id draggedNode = Some (node_id node) then acc
             else
               (let vx = p_vx pos * DAMPING;
                    vy = p_vy pos * DAMPING;
                    pos' = \<lparr>p_x = p_x pos + vx, p_y = p_y pos + vy, p_vx = vx, p_vy = vy\<rparr>
                in (positions(node_id node \<mapsto> pos'), totalEnergy + (vx * vx + vy * vy)))))"

text \<open>The three passes of one tick: the new store and the tick's \<^verbatim>\<open>totalEnergy\<close>.\<close>

definition graph_tick ::
  "Node list \<Rightarrow> Link list \<Rightarrow> dimensions \<Rightarrow> Node option \<Rightarrow> NodePositions
     \<Rightarrow> NodePositions \<times> real" where
  "graph_tick nodes links dims draggedNode positions =
     (let p1 = fold (center_and_repel nodes dims) nodes positions;
          p2 = fold spring links p1
      in fold (integrate draggedNode) nodes (p2, 0))"

record simulation =
  nodePositions :: NodePositions
  isStable :: bool

definition runGraphSimulation ::
  "Node list \<Rightarrow> Link list \<Rightarrow> dimensions \<Rightarrow> Node option \<Rightarrow> simulation \<Rightarrow> simulation" where
  "runGraphSimulation nodes links dims draggedNode sim =
     (if isStable sim \<and> draggedNode = None then sim
      else
        (case graph_tick nodes links dims draggedNode (nodePositions sim) of
           (positions, totalEnergy) \<Rightarrow>
             \<lparr>nodePositions = positions,
              isStable = (if draggedNode = None \<and> totalEnergy < ENERGY_THRESHOLD then True
                          else isStable sim)\<rparr>))"

section \<open>Hierarchy maps and the focus path\<close>

text \<open>
  The first memo builds \<^verbatim>\<open>parentMap\<close> and \<^verbatim>\<open>childrenMap\<close> from the nodes and links
  (both stay empty when there are no nodes). A link whose source is not a node id adds
  no child (\<^verbatim>\<open>cMap.get(link.source)?.push(...)\<close>).
\<close>

definition build_childrenMap :: "Node list \<Rightarrow> Link list \<Rightarrow> (string \<rightharpoonup> string list)" where
  "build_childrenMap nodes links =
     (if nodes = [] then Map.empty
      else fold (\<lambda>link cMap.
                  case cMap (source link) of
                    None \<Rightarrow> cMap
                  | Some children \<Rightarrow> cMap(source link \<mapsto> children @ [target link]))
             links
             (fold (\<lambda>node cMap. cMap(node_id node \<mapsto> [])) nodes Map.empty))"

definition build_parentMap :: "Node list \<Rightarrow> Link list \<Rightarrow> (string \<rightharpoonup> string)" where
  "build_parentMap nodes links =
     (if nodes = [] then Map.empty
      else fold (\<lambda>link pMap. pMap(target link \<mapsto> source link)) links Map.empty)"

text \<open>\<^verbatim>\<open>childrenMap.get(currentId) || []\<close>.\<close>

definition children_of :: "(string \<rightharpoonup> string list) \<Rightarrow> string \<Rightarrow> string list" where
  "children_of childrenMap currentId = (case childrenMap currentId of None \<Rightarrow> [] | Some children \<Rightarrow> children)"

text \<open>
  The breadth-first loop of the second memo. It keeps no visited set, so on cyclic
  links the queue never empties: the loop is a partial function and \<open>None\<close> stands
  for non-termination.
\<close>

partial_function (option) collect_descendants ::
  "(string \<rightharpoonup> string list) \<Rightarrow> string list \<Rightarrow> string set \<Rightarrow> string set option" where
  "collect_descendants childrenMap queue allDescendants =
     (case queue of
        [] \<Rightarrow> Some allDescendants
      | currentId # rest \<Rightarrow>
          collect_descendants childrenMap (rest @ children_of childrenMap currentId)
            (insert currentId allDescendants))"

text \<open>\<^verbatim>\<open>a.masteryScore ?? 0\<close>, the sort key of the focus path.\<close>

definition mastery_or_0 :: "Node \<Rightarrow> real" where
  "mastery_or_0 n = (case masteryScore n of None \<Rightarrow> 0 | Some m \<Rightarrow> m)"

text \<open>
  The second memo: the descendants of the chosen node, the question nodes among them
  sorted by \<^verbatim>\<open>(a.masteryScore ?? 0) - (b.masteryScore ?? 0)\<close>, the links between
  consecutive sorted questions and the set of path ids. \<^verbatim>\<open>Array.prototype.sort\<close> is
  stable and this comparator orders by a key, so its result is the stable sort by that
  key, which is what \<open>sort_key\<close> computes.
\<close>

definition focus_path ::
  "Node list \<Rightarrow> (string \<rightharpoonup> string list) \<Rightarrow> Node option
     \<Rightarrow> (Node list \<times> Link list \<times> string set) option" where
  "focus_path nodes childrenMap weakestPathNode =
     (case weakestPathNode of
        None \<Rightarrow> Some ([], [], {})
      | Some wpn \<Rightarrow>
          (case collect_descendants childrenMap [node_id wpn] {} of
             None \<Rightarrow> None
           | Some allDescendants \<Rightarrow>
               (let questionsOnPath =
                      filter (\<lambda>n. node_type n = ''question'' \<and> node_id n \<in> allDescendants) nodes;
                    sortedQuestions = sort_key mastery_or_0 questionsOnPath;
                    pathLinks =
                      map (\<lambda>i. \<lparr>source = node_id (sortedQuestions ! i),
                                 target = node_id (sortedQuestions ! (i + 1))\<rparr>)
                        [0 ..< length sortedQuestions - 1];
                    pathIds = insert (node_id wpn) (set (map node_id sortedQuestions));
                    pathIds' =
                      (if node_type wpn = ''subject''
                       then pathIds \<union> set (children_of childrenMap (node_id wpn))
                       else pathIds)
                in Some (sortedQuestions, pathLinks, pathIds'))))"

text \<open>
  The hierarchy as a relation, read off the input links: parent to child, for the
  links whose source is a node. It is the relation that \<^verbatim>\<open>childrenMap\<close> stores.
\<close>

definition link_rel :: "Node list \<Rightarrow> Link list \<Rightarrow> (string \<times> string) set" where
  "link_rel nodes links =
     {(source l, target l) | l. l \<in> set links \<and> source l \<in> node_id ` set nodes}"

definition child_rel :: "(string \<rightharpoonup> string list) \<Rightarrow> (string \<times> string) set" where
  "child_rel childrenMap = {(p, c). c \<in> set (children_of childrenMap p)}"

section \<open>Orbit mode\<close>

text \<open>\<^verbatim>\<open>currentId.startsWith('subject-')\<close>.\<close>

definition starts_with_subject :: "string \<Rightarrow> bool" where
  "starts_with_subject s \<longleftrightarrow> take 8 s = ''subject-''"

text \<open>
  \<^verbatim>\<open>getRootSubjectId\<close>: at most five steps up the parent map. A missing or empty
  parent id ends the walk with \<^verbatim>\<open>undefined\<close>, as does running out of steps.
\<close>

fun getRootSubjectId_loop :: "(string \<rightharpoonup> string) \<Rightarrow> nat \<Rightarrow> string \<Rightarrow> string option" where
  "getRootSubjectId_loop parentMap 0 currentId = None"
| "getRootSubjectId_loop parentMap (Suc n) currentId =
     (if starts_with_subject currentId then Some currentId
      else (case parentMap currentId of
              None \<Rightarrow> None
            | Some parentId \<Rightarrow>
                if parentId = [] then None else getRootSubjectId_loop parentMap n parentId))"

definition getRootSubjectId :: "(string \<rightharpoonup> string) \<Rightarrow> string \<Rightarrow> string option" where
  "getRootSubjectId parentMap nodeId = getRootSubjectId_loop parentMap 5 nodeId"

text \<open>\<^verbatim>\<open>subjectAngles\<close>: the subjects share the full turn evenly, in list order.\<close>

definition subjectAngles :: "Node list \<Rightarrow> (string \<rightharpoonup> real)" where
  "subjectAngles nodes =
     (let subjects = filter (\<lambda>n. node_type n = ''subject'') nodes
      in fold (\<lambda>i m. m(node_id (subjects ! i) \<mapsto> (real i / real (length subjects)) * 2 * pi))
           [0 ..< length subjects] Map.empty)"

text \<open>
  \<^verbatim>\<open>parseInt(node.id.replace(/[^0-9]/g, ''), 10) || 1\<close>: the decimal value of the digits
  of the id, and 1 when there are none (NaN) or the value is 0.
\<close>

definition is_digit :: "char \<Rightarrow> bool" where
  "is_digit c \<longleftrightarrow> 48 \<le> (of_char c :: nat) \<and> (of_char c :: nat) \<le> 57"

definition parseInt_digits :: "string \<Rightarrow> nat option" where
  "parseInt_digits s =
     (case filter is_digit s of
        [] \<Rightarrow> None
      | ds \<Rightarrow> Some (foldl (\<lambda>acc c. 10 * acc + (of_char c - 48)) 0 ds))"

definition id_number :: "string \<Rightarrow> nat" where
  "id_number s = (case parseInt_digits s of None \<Rightarrow> 1 | Some v \<Rightarrow> if v = 0 then 1 else v)"

definition baseAngle :: "(string \<rightharpoonup> string) \<Rightarrow> (string \<rightharpoonup> real) \<Rightarrow> Node \<Rightarrow> real" where
  "baseAngle parentMap angles node =
     (case getRootSubjectId parentMap (node_id node) of
        Some rootSubjectId \<Rightarrow> (case angles rootSubjectId of Some a \<Rightarrow> a | None \<Rightarrow> 0)
      | None \<Rightarrow> real (id_number (node_id node)) / 100 * pi * 2)"

text \<open>\<^verbatim>\<open>1 - mastery / 105\<close> with \<^verbatim>\<open>mastery = node.masteryScore ?? 50\<close>.\<close>

definition radiusFactor :: "Node \<Rightarrow> real" where
  "radiusFactor node = 1 - (case masteryScore node of None \<Rightarrow> 50 | Some m \<Rightarrow> m) / 105"

text \<open>The jitter added to the base angle, from one draw of \<^verbatim>\<open>Math.random()\<close>.\<close>

definition jitter :: "Node \<Rightarrow> real \<Rightarrow> real" where
  "jitter node r = (if node_type node = ''question'' then (r - 0.5) * 0.4 else (r - 0.5) * 0.2)"

text \<open>\<^verbatim>\<open>(targetX, targetY)\<close> for a node at a given angle.\<close>

definition orbit_target :: "dimensions \<Rightarrow> Node \<Rightarrow> real \<Rightarrow> real \<times> real" where
  "orbit_target dims node angle =
     (let centerX = width dims / 2;
          centerY = height dims / 2;
          radiusX = (width dims / 2) * 0.9;
          radiusY = (height dims / 2) * 0.9
      in (centerX + cos angle * radiusX * radiusFactor node,
          centerY + sin angle * radiusY * radiusFactor node))"




text \<open>The distance of a point from the viewport centre.\<close>

definition radial_distance :: "dimensions \<Rightarrow> real \<times> real \<Rightarrow> real" where
  "radial_distance dims p =
     sqrt ((fst p - width dims / 2)\<^sup>2 + (snd p - height dims / 2)\<^sup>2)"

section \<open>Wheel zoom keeps the point under the cursor\<close>

text \<open>
  C1. For a transform with non-zero scale and a wheel event over the canvas, the
  transform after \<^verbatim>\<open>handleWheel\<close> shows the same model-space point under the pointer
  as before, exactly in real arithmetic, whether or not the new scale was clamped.
\<close>

theorem handleWheel_anchor:
  assumes "t_k (transform_current cam) \<noteq> 0"
  shows "model_point (transform_current (handleWheel (Some (rleft, rtop)) e cam))
           (clientX e - rleft, clientY e - rtop)
         = model_point (transform_current cam) (clientX e - rleft, clientY e - rtop)"
proof -
  define tr where "tr = transform_current cam"
  define ns where "ns = max 0.2 (min 5 (t_k tr * (1 - deltaY e * 0.001)))"
  have ns_pos: "ns \<noteq> 0" unfolding ns_def by (simp add: max_def min_def)
  have k0: "t_k tr \<noteq> 0" using assms by (simp add: tr_def)
  have q: "a * (ns / t_k tr) / ns = a / t_k tr" for a
    using ns_pos k0 by (simp add: field_simps)
  show ?thesis
    using q by (simp add: handleWheel_def getMousePos_def model_point_def Let_def
        tr_def [symmetric] ns_def [symmetric])
qed

theorem handleWheel_anchor_witness:
  "t_k (transform_current \<lparr>transform_current = \<lparr>t_k = 1, t_x = 10, t_y = 20\<rparr>,
                           targetTransform = None\<rparr>) \<noteq> 0
   \<and> model_point (transform_current (handleWheel (Some (0, 0))
        \<lparr>clientX = 100, clientY = 50, deltaY = -10000\<rparr>
        \<lparr>transform_current = \<lparr>t_k = 1, t_x = 10, t_y = 20\<rparr>, targetTransform = None\<rparr>))
        (100, 50) = (90, 30)
   \<and> transform_current (handleWheel (Some (0, 0))
        \<lparr>clientX = 100, clientY = 50, deltaY = -10000\<rparr>
        \<lparr>transform_current = \<lparr>t_k = 1, t_x = 10, t_y = 20\<rparr>, targetTransform = None\<rparr>)
      = \<lparr>t_k = 5, t_x = -350, t_y = -100\<rparr>"
  using handleWheel_anchor [of "\<lparr>transform_current = \<lparr>t_k = 1, t_x = 10, t_y = 20\<rparr>,
                           targetTransform = None\<rparr>" 0 0
       "\<lparr>clientX = 100, clientY = 50, deltaY = -10000\<rparr>"]
  by (simp add: model_point_def handleWheel_def getMousePos_def)

section \<open>The camera scale\<close>

lemma min_cap: "min a (3 / 2 :: real) * 2 \<le> 3"
  by (simp add: min_def)

lemma fit_bounds_scale_le: "fit_bounds dims xs ys = Target t \<Longrightarrow> t_k t \<le> 1.5"
  by (auto simp: fit_bounds_def Let_def min_cap split: option.splits)

lemma resetView_target_scale_le:
  "resetView_target nodes dims mode wp ids positions = Target t \<Longrightarrow> t_k t \<le> 1.5"
  using fit_bounds_scale_le
  by (auto simp: resetView_target_def Let_def identity_transform_def split: if_splits)

lemma clamp_range: "0.2 \<le> max 0.2 (min 5 (v::real)) \<and> max 0.2 (min 5 v) \<le> 5"
  by (simp add: max_def min_def)

lemma handleWheel_scale:
  "t_k (transform_current (handleWheel (Some r) e cam))
   = max 0.2 (min 5 (t_k (transform_current cam) * (1 - deltaY e * 0.001)))"
  by (cases r) (simp add: handleWheel_def getMousePos_def Let_def)

lemma zoom_target:
  "\<exists>t. targetTransform (zoom dims f cam) = Some t
       \<and> t_k t = max 0.2 (min 5 (t_k (transform_current cam) * f))"
  by (simp add: zoom_def Let_def)

lemma loop_camera_range:
  assumes "lo \<le> t_k (transform_current cam)" "t_k (transform_current cam) \<le> hi"
    and "targetTransform cam = Some tgt" "lo \<le> t_k tgt" "t_k tgt \<le> hi"
  shows "lo \<le> t_k (transform_current (loop_camera cam))
         \<and> t_k (transform_current (loop_camera cam)) \<le> hi"
proof -
  have a: "lo \<le> a * (1 - 0.08) + b * 0.08" if "lo \<le> a" "lo \<le> b" for a b :: real
    using that by simp
  have b: "a * (1 - 0.08) + b * 0.08 \<le> hi" if "a \<le> hi" "b \<le> hi" for a b :: real
    using that by simp
  show ?thesis
    using assms a [of "t_k (transform_current cam)" "t_k tgt"]
      b [of "t_k (transform_current cam)" "t_k tgt"]
    by (simp add: loop_camera_def Let_def)
qed

text \<open>
  C2, as stated, fails for \<^verbatim>\<open>resetView\<close>: the fitted scale is
  \<^verbatim>\<open>Math.min(scaleX, scaleY, 1.5)\<close>, capped above only. Two nodes 10000 units apart in
  a 100 by 100 viewport give the target scale 1/101, below 0.2.
\<close>

theorem resetView_scale_counterexample:
  "resetView_target
     [\<lparr>node_id = ''a'', radius = 5, masteryScore = None, node_type = ''question''\<rparr>,
      \<lparr>node_id = ''b'', radius = 5, masteryScore = None, node_type = ''question''\<rparr>]
     \<lparr>width = 100, height = 100\<rparr> graph None {}
     [''a'' \<mapsto> \<lparr>p_x = 1, p_y = 1, p_vx = 0, p_vy = 0\<rparr>,
      ''b'' \<mapsto> \<lparr>p_x = 10001, p_y = 1, p_vx = 0, p_vy = 0\<rparr>]
   = Target \<lparr>t_k = 1 / 101, t_x = 50 - 5001 / 101, t_y = 50 - 1 / 101\<rparr>
   \<and> \<not> (0.2 \<le> t_k \<lparr>t_k = 1 / 101, t_x = 50 - 5001 / 101, t_y = 50 - 1 / 101\<rparr>)"
  by (simp add: resetView_target_def nodesToFrame_def frame_coords_def coord_or_0_def
      fit_bounds_def Let_def)

text \<open>
  C2 (amended). Wheel zoom, \<^verbatim>\<open>zoom(factor)\<close> and so \<^verbatim>\<open>zoomIn\<close> and \<^verbatim>\<open>zoomOut\<close> yield a
  scale within 0.2 and 5 from any current scale. One frame of interpolation from an
  in-range scale towards a pending target with an in-range scale yields an in-range
  scale. The target of \<^verbatim>\<open>resetView\<close> has a scale of at most 1.5; it has no lower clamp.
\<close>

theorem camera_scale_bounds:
  "(0.2 \<le> t_k (transform_current (handleWheel (Some r) e cam))
      \<and> t_k (transform_current (handleWheel (Some r) e cam)) \<le> 5)
   \<and> (\<exists>t. targetTransform (zoom dims f cam) = Some t \<and> 0.2 \<le> t_k t \<and> t_k t \<le> 5)
   \<and> (\<exists>t. targetTransform (zoomIn dims cam) = Some t \<and> 0.2 \<le> t_k t \<and> t_k t \<le> 5)
   \<and> (\<exists>t. targetTransform (zoomOut dims cam) = Some t \<and> 0.2 \<le> t_k t \<and> t_k t \<le> 5)
   \<and> (0.2 \<le> t_k (transform_current cam2) \<and> t_k (transform_current cam2) \<le> 5
        \<and> targetTransform cam2 = Some tgt \<and> 0.2 \<le> t_k tgt \<and> t_k tgt \<le> 5
      \<longrightarrow> 0.2 \<le> t_k (transform_current (loop_camera cam2))
          \<and> t_k (transform_current (loop_camera cam2)) \<le> 5)
   \<and> (resetView_target nodes dims2 mode wp ids positions = Target t2 \<longrightarrow> t_k t2 \<le> 1.5)"
proof -
  have z: "\<exists>t. targetTransform (zoom dims g cam) = Some t \<and> 0.2 \<le> t_k t \<and> t_k t \<le> 5" for g
    using zoom_target [of dims g cam] clamp_range by auto
  have w: "0.2 \<le> t_k (transform_current (handleWheel (Some r) e cam))
      \<and> t_k (transform_current (handleWheel (Some r) e cam)) \<le> 5"
    unfolding handleWheel_scale by (rule clamp_range)
  have l: "0.2 \<le> t_k (transform_current cam2) \<and> t_k (transform_current cam2) \<le> 5
        \<and> targetTransform cam2 = Some tgt \<and> 0.2 \<le> t_k tgt \<and> t_k tgt \<le> 5
      \<longrightarrow> 0.2 \<le> t_k (transform_current (loop_camera cam2))
          \<and> t_k (transform_current (loop_camera cam2)) \<le> 5"
    using loop_camera_range [of "0.2" cam2 5 tgt] by blast
  have rv: "resetView_target nodes dims2 mode wp ids positions = Target t2 \<longrightarrow> t_k t2 \<le> 1.5"
    using resetView_target_scale_le by blast
  show ?thesis
    using w z [of f] z [of "1.3"] z [of "1 / 1.3"] l rv
    unfolding zoomIn_def zoomOut_def by blast
qed

theorem camera_scale_bounds_witness:
  "(0.2 \<le> t_k (transform_current \<lparr>transform_current = \<lparr>t_k = 1, t_x = 0, t_y = 0\<rparr>,
                                   targetTransform = Some \<lparr>t_k = 2, t_x = 40, t_y = 40\<rparr>\<rparr>)
    \<and> t_k (transform_current \<lparr>transform_current = \<lparr>t_k = 1, t_x = 0, t_y = 0\<rparr>,
                              targetTransform = Some \<lparr>t_k = 2, t_x = 40, t_y = 40\<rparr>\<rparr>) \<le> 5
    \<and> targetTransform \<lparr>transform_current = \<lparr>t_k = 1, t_x = 0, t_y = 0\<rparr>,
                        targetTransform = Some \<lparr>t_k = 2, t_x = 40, t_y = 40\<rparr>\<rparr>
        = Some \<lparr>t_k = 2, t_x = 40, t_y = 40\<rparr>
    \<and> 0.2 \<le> t_k \<lparr>t_k = 2, t_x = 40, t_y = 40\<rparr> \<and> t_k \<lparr>t_k = 2, t_x = 40, t_y = 40\<rparr> \<le> 5)
   \<and> transform_current (loop_camera \<lparr>transform_current = \<lparr>t_k = 1, t_x = 0, t_y = 0\<rparr>,
                              targetTransform = Some \<lparr>t_k = 2, t_x = 40, t_y = 40\<rparr>\<rparr>)
       = \<lparr>t_k = 1.08, t_x = 3.2, t_y = 3.2\<rparr>
   \<and> 0.2 \<le> t_k (transform_current (loop_camera
          \<lparr>transform_current = \<lparr>t_k = 1, t_x = 0, t_y = 0\<rparr>,
           targetTransform = Some \<lparr>t_k = 2, t_x = 40, t_y = 40\<rparr>\<rparr>))
   \<and> t_k (transform_current (loop_camera
          \<lparr>transform_current = \<lparr>t_k = 1, t_x = 0, t_y = 0\<rparr>,
           targetTransform = Some \<lparr>t_k = 2, t_x = 40, t_y = 40\<rparr>\<rparr>)) \<le> 5
   \<and> resetView_target
        [\<lparr>node_id = ''q1'', radius = 5, masteryScore = Some 30, node_type = ''question''\<rparr>]
        \<lparr>width = 200, height = 200\<rparr> graph None {}
        [''q1'' \<mapsto> \<lparr>p_x = 100, p_y = 100, p_vx = 0, p_vy = 0\<rparr>]
      = Target \<lparr>t_k = 1.5, t_x = -50, t_y = -50\<rparr>
   \<and> t_k \<lparr>t_k = 1.5, t_x = -50, t_y = -50\<rparr> \<le> 1.5"
  using camera_scale_bounds [of "(0, 0)" "\<lparr>clientX = 0, clientY = 0, deltaY = 0\<rparr>"
      "\<lparr>transform_current = \<lparr>t_k = 1, t_x = 0, t_y = 0\<rparr>, targetTransform = None\<rparr>"
      "\<lparr>width = 200, height = 200\<rparr>" 1
      "\<lparr>transform_current = \<lparr>t_k = 1, t_x = 0, t_y = 0\<rparr>,
        targetTransform = Some \<lparr>t_k = 2, t_x = 40, t_y = 40\<rparr>\<rparr>"
      "\<lparr>t_k = 2, t_x = 40, t_y = 40\<rparr>"
      "[\<lparr>node_id = ''q1'', radius = 5, masteryScore = Some 30, node_type = ''question''\<rparr>]"
      "\<lparr>width = 200, height = 200\<rparr>" graph None "{}"
      "[''q1'' \<mapsto> \<lparr>p_x = 100, p_y = 100, p_vx = 0, p_vy = 0\<rparr>]"
      "\<lparr>t_k = 1.5, t_x = -50, t_y = -50\<rparr>"]
  by (simp add: loop_camera_def resetView_target_def nodesToFrame_def frame_coords_def
      coord_or_0_def fit_bounds_def Let_def)

section \<open>What \<^verbatim>\<open>resetView\<close> frames\<close>

lemma frame_coords_Nil [simp]: "frame_coords sel positions [] = []"
  by (simp add: frame_coords_def)

lemma frame_coords_all_zero:
  "\<forall>m\<in>set ns. coord_or_0 sel positions m = 0 \<Longrightarrow> frame_coords sel positions ns = []"
  by (induction ns) (simp_all add: frame_coords_def)

lemma resetView_target_alt:
  "resetView_target nodes dims mode wp ids positions =
     (if width dims = 0 then Target identity_transform
      else if mode = graph \<or> wp \<noteq> None then
        (if frame_coords p_x positions (nodesToFrame nodes wp ids) = []
         then Target identity_transform
         else fit_bounds dims (frame_coords p_x positions (nodesToFrame nodes wp ids))
                (frame_coords p_y positions (nodesToFrame nodes wp ids)))
      else Target identity_transform)"
proof (cases "nodes = []")
  case True
  then show ?thesis by (simp add: resetView_target_def nodesToFrame_def)
next
  case False
  show ?thesis
  proof (cases "nodesToFrame nodes wp ids = []")
    case True
    then show ?thesis using False
      by (simp add: resetView_target_def Let_def)
  next
    case ne: False
    then show ?thesis using False
      by (simp add: resetView_target_def Let_def)
  qed
qed

lemma frame_coords_nodesToFrame_drop:
  "coord_or_0 sel positions n = 0 \<Longrightarrow>
   frame_coords sel positions (nodesToFrame (ns1 @ n # ns2) wp ids)
   = frame_coords sel positions (nodesToFrame (ns1 @ ns2) wp ids)"
  by (simp add: frame_coords_def nodesToFrame_def)

lemma frame_coords_nodesToFrame_all_zero:
  "\<forall>m\<in>set nodes. coord_or_0 sel positions m = 0 \<Longrightarrow>
   frame_coords sel positions (nodesToFrame nodes wp ids) = []"
  by (rule frame_coords_all_zero) (simp add: nodesToFrame_def)

text \<open>
  C10, as stated, fails: the zeros are filtered per axis, so a node whose stored x is
  exactly 0 but whose y is not still enters the y extent and does influence the fitted
  scale and translation. In a 400 by 400 viewport with nodes at (100, 40) and
  (300, 240), a third node stored at (0, 440) changes the target from scale 4/3 to
  scale 0.8.
\<close>

theorem resetView_zero_x_counterexample:
  "coord_or_0 p_x
     [''a'' \<mapsto> \<lparr>p_x = 100, p_y = 40, p_vx = 0, p_vy = 0\<rparr>,
      ''b'' \<mapsto> \<lparr>p_x = 300, p_y = 240, p_vx = 0, p_vy = 0\<rparr>,
      ''zx'' \<mapsto> \<lparr>p_x = 0, p_y = 440, p_vx = 0, p_vy = 0\<rparr>]
     \<lparr>node_id = ''zx'', radius = 5, masteryScore = None, node_type = ''question''\<rparr> = 0
   \<and> resetView_target
        [\<lparr>node_id = ''a'', radius = 5, masteryScore = None, node_type = ''question''\<rparr>,
         \<lparr>node_id = ''b'', radius = 5, masteryScore = None, node_type = ''question''\<rparr>]
        \<lparr>width = 400, height = 400\<rparr> graph None {}
        [''a'' \<mapsto> \<lparr>p_x = 100, p_y = 40, p_vx = 0, p_vy = 0\<rparr>,
         ''b'' \<mapsto> \<lparr>p_x = 300, p_y = 240, p_vx = 0, p_vy = 0\<rparr>,
         ''zx'' \<mapsto> \<lparr>p_x = 0, p_y = 440, p_vx = 0, p_vy = 0\<rparr>]
      = Target \<lparr>t_k = 4 / 3, t_x = - (200 / 3), t_y = 40 / 3\<rparr>
   \<and> resetView_target
        [\<lparr>node_id = ''a'', radius = 5, masteryScore = None, node_type = ''question''\<rparr>,
         \<lparr>node_id = ''zx'', radius = 5, masteryScore = None, node_type = ''question''\<rparr>,
         \<lparr>node_id = ''b'', radius = 5, masteryScore = None, node_type = ''question''\<rparr>]
        \<lparr>width = 400, height = 400\<rparr> graph None {}
        [''a'' \<mapsto> \<lparr>p_x = 100, p_y = 40, p_vx = 0, p_vy = 0\<rparr>,
         ''b'' \<mapsto> \<lparr>p_x = 300, p_y = 240, p_vx = 0, p_vy = 0\<rparr>,
         ''zx'' \<mapsto> \<lparr>p_x = 0, p_y = 440, p_vx = 0, p_vy = 0\<rparr>]
      = Target \<lparr>t_k = 0.8, t_x = 40, t_y = 8\<rparr>
   \<and> Target \<lparr>t_k = 0.8, t_x = 40, t_y = 8\<rparr>
      \<noteq> Target \<lparr>t_k = 4 / 3, t_x = - (200 / 3), t_y = 40 / 3\<rparr>"
  by (simp add: resetView_target_def nodesToFrame_def frame_coords_def coord_or_0_def
      fit_bounds_def Let_def)

text \<open>
  C10 (amended). In \<^verbatim>\<open>resetView\<close>, a node without an entry in the position store has
  both coordinates read as 0. A node whose x coordinate is 0 or missing takes no part
  in the x extent of the fit (the fit is computed from the x values of the other
  nodes) while its y, if not 0, still enters the y extent; likewise with x and y
  exchanged. A node with both coordinates 0 or missing can be removed from the
  node list without changing the target. If every x coordinate is 0 or missing, the
  target is \<^verbatim>\<open>{ k: 1, x: 0, y: 0 }\<close>.
\<close>

theorem resetView_excludes_zero_and_missing:
  "(positions (node_id m) = None
      \<longrightarrow> coord_or_0 p_x positions m = 0 \<and> coord_or_0 p_y positions m = 0)
   \<and> (coord_or_0 p_x positions nx = 0 \<and> width dims \<noteq> 0 \<and> (mode = graph \<or> wp \<noteq> None)
        \<and> frame_coords p_x positions (nodesToFrame (xs1 @ xs2) wp ids) \<noteq> []
      \<longrightarrow> resetView_target (xs1 @ nx # xs2) dims mode wp ids positions
          = fit_bounds dims (frame_coords p_x positions (nodesToFrame (xs1 @ xs2) wp ids))
              (frame_coords p_y positions (nodesToFrame (xs1 @ nx # xs2) wp ids)))
   \<and> (coord_or_0 p_y positions ny = 0 \<and> width dims \<noteq> 0 \<and> (mode = graph \<or> wp \<noteq> None)
        \<and> frame_coords p_x positions (nodesToFrame (ys1 @ ny # ys2) wp ids) \<noteq> []
      \<longrightarrow> resetView_target (ys1 @ ny # ys2) dims mode wp ids positions
          = fit_bounds dims (frame_coords p_x positions (nodesToFrame (ys1 @ ny # ys2) wp ids))
              (frame_coords p_y positions (nodesToFrame (ys1 @ ys2) wp ids)))
   \<and> (coord_or_0 p_x positions n = 0 \<and> coord_or_0 p_y positions n = 0
      \<longrightarrow> resetView_target (ns1 @ n # ns2) dims mode wp ids positions
          = resetView_target (ns1 @ ns2) dims mode wp ids positions)
   \<and> ((\<forall>z\<in>set nodes. coord_or_0 p_x positions z = 0)
      \<longrightarrow> resetView_target nodes dims mode wp ids positions = Target identity_transform)"
proof -
  have c1: "positions (node_id m) = None
      \<longrightarrow> coord_or_0 p_x positions m = 0 \<and> coord_or_0 p_y positions m = 0"
    by (simp add: coord_or_0_def)
  have c2: "coord_or_0 p_x positions nx = 0 \<and> width dims \<noteq> 0 \<and> (mode = graph \<or> wp \<noteq> None)
        \<and> frame_coords p_x positions (nodesToFrame (xs1 @ xs2) wp ids) \<noteq> []
      \<longrightarrow> resetView_target (xs1 @ nx # xs2) dims mode wp ids positions
          = fit_bounds dims (frame_coords p_x positions (nodesToFrame (xs1 @ xs2) wp ids))
              (frame_coords p_y positions (nodesToFrame (xs1 @ nx # xs2) wp ids))"
    unfolding resetView_target_alt
    using frame_coords_nodesToFrame_drop [of p_x positions nx xs1 xs2 wp ids] by auto
  have c3: "coord_or_0 p_y positions ny = 0 \<and> width dims \<noteq> 0 \<and> (mode = graph \<or> wp \<noteq> None)
        \<and> frame_coords p_x positions (nodesToFrame (ys1 @ ny # ys2) wp ids) \<noteq> []
      \<longrightarrow> resetView_target (ys1 @ ny # ys2) dims mode wp ids positions
          = fit_bounds dims (frame_coords p_x positions (nodesToFrame (ys1 @ ny # ys2) wp ids))
              (frame_coords p_y positions (nodesToFrame (ys1 @ ys2) wp ids))"
    unfolding resetView_target_alt
    using frame_coords_nodesToFrame_drop [of p_y positions ny ys1 ys2 wp ids] by auto
  have c4: "coord_or_0 p_x positions n = 0 \<and> coord_or_0 p_y positions n = 0
      \<longrightarrow> resetView_target (ns1 @ n # ns2) dims mode wp ids positions
          = resetView_target (ns1 @ ns2) dims mode wp ids positions"
    unfolding resetView_target_alt
    using frame_coords_nodesToFrame_drop [of p_x positions n ns1 ns2 wp ids]
      frame_coords_nodesToFrame_drop [of p_y positions n ns1 ns2 wp ids] by auto
  have c5: "(\<forall>z\<in>set nodes. coord_or_0 p_x positions z = 0)
      \<longrightarrow> resetView_target nodes dims mode wp ids positions = Target identity_transform"
    unfolding resetView_target_alt
    using frame_coords_nodesToFrame_all_zero [of nodes p_x positions wp ids] by auto
  show ?thesis using c1 c2 c3 c4 c5 by blast
qed

theorem resetView_excludes_zero_and_missing_witness:
  "let a = \<lparr>node_id = ''a'', radius = 5, masteryScore = None, node_type = ''question''\<rparr>;
       b = \<lparr>node_id = ''b'', radius = 5, masteryScore = None, node_type = ''question''\<rparr>;
       zx = \<lparr>node_id = ''zx'', radius = 5, masteryScore = None, node_type = ''question''\<rparr>;
       zy = \<lparr>node_id = ''zy'', radius = 5, masteryScore = None, node_type = ''question''\<rparr>;
       zz = \<lparr>node_id = ''zz'', radius = 5, masteryScore = None, node_type = ''question''\<rparr>;
       ghost = \<lparr>node_id = ''ghost'', radius = 5, masteryScore = None, node_type = ''question''\<rparr>;
       P = [''a'' \<mapsto> \<lparr>p_x = 100, p_y = 40, p_vx = 0, p_vy = 0\<rparr>,
            ''b'' \<mapsto> \<lparr>p_x = 300, p_y = 240, p_vx = 0, p_vy = 0\<rparr>,
            ''zx'' \<mapsto> \<lparr>p_x = 0, p_y = 440, p_vx = 0, p_vy = 0\<rparr>,
            ''zy'' \<mapsto> \<lparr>p_x = 500, p_y = 0, p_vx = 0, p_vy = 0\<rparr>,
            ''zz'' \<mapsto> \<lparr>p_x = 0, p_y = 0, p_vx = 0, p_vy = 0\<rparr>];
       d = \<lparr>width = 400, height = 400\<rparr>
   in P (node_id ghost) = None
      \<and> coord_or_0 p_x P ghost = 0 \<and> coord_or_0 p_y P ghost = 0
      \<and> coord_or_0 p_x P zx = 0 \<and> width d \<noteq> 0
      \<and> frame_coords p_x P (nodesToFrame ([a] @ [b]) None {}) = [100, 300]
      \<and> resetView_target ([a] @ zx # [b]) d graph None {} P
          = Target \<lparr>t_k = 0.8, t_x = 40, t_y = 8\<rparr>
      \<and> fit_bounds d (frame_coords p_x P (nodesToFrame ([a] @ [b]) None {}))
            (frame_coords p_y P (nodesToFrame ([a] @ zx # [b]) None {}))
          = Target \<lparr>t_k = 0.8, t_x = 40, t_y = 8\<rparr>
      \<and> coord_or_0 p_y P zy = 0
      \<and> frame_coords p_x P (nodesToFrame ([a] @ zy # [b]) None {}) = [100, 500, 300]
      \<and> resetView_target ([a] @ zy # [b]) d graph None {} P
          = Target \<lparr>t_k = 0.8, t_x = -40, t_y = 88\<rparr>
      \<and> coord_or_0 p_x P zz = 0 \<and> coord_or_0 p_y P zz = 0
      \<and> resetView_target ([a] @ zz # [b]) d graph None {} P
          = resetView_target ([a] @ [b]) d graph None {} P
      \<and> resetView_target ([a] @ [b]) d graph None {} P
          = Target \<lparr>t_k = 4 / 3, t_x = - (200 / 3), t_y = 40 / 3\<rparr>
      \<and> (\<forall>z\<in>set [zz, ghost]. coord_or_0 p_x P z = 0)
      \<and> resetView_target [zz, ghost] d graph None {} P = Target identity_transform"
  using resetView_excludes_zero_and_missing
    [of "[''a'' \<mapsto> \<lparr>p_x = 100, p_y = 40, p_vx = 0, p_vy = 0\<rparr>,
            ''b'' \<mapsto> \<lparr>p_x = 300, p_y = 240, p_vx = 0, p_vy = 0\<rparr>,
            ''zx'' \<mapsto> \<lparr>p_x = 0, p_y = 440, p_vx = 0, p_vy = 0\<rparr>,
            ''zy'' \<mapsto> \<lparr>p_x = 500, p_y = 0, p_vx = 0, p_vy = 0\<rparr>,
            ''zz'' \<mapsto> \<lparr>p_x = 0, p_y = 0, p_vx = 0, p_vy = 0\<rparr>]"
       "\<lparr>node_id = ''ghost'', radius = 5, masteryScore = None, node_type = ''question''\<rparr>"
       "\<lparr>node_id = ''zx'', radius = 5, masteryScore = None, node_type = ''question''\<rparr>"
       "\<lparr>width = 400, height = 400\<rparr>" graph None
       "[\<lparr>node_id = ''a'', radius = 5, masteryScore = None, node_type = ''question''\<rparr>]"
       "[\<lparr>node_id = ''b'', radius = 5, masteryScore = None, node_type = ''question''\<rparr>]"
       "{}"
       "\<lparr>node_id = ''zy'', radius = 5, masteryScore = None, node_type = ''question''\<rparr>"
       "[\<lparr>node_id = ''a'', radius = 5, masteryScore = None, node_type = ''question''\<rparr>]"
       "[\<lparr>node_id = ''b'', radius = 5, masteryScore = None, node_type = ''question''\<rparr>]"
       "\<lparr>node_id = ''zz'', radius = 5, masteryScore = None, node_type = ''question''\<rparr>"
       "[\<lparr>node_id = ''a'', radius = 5, masteryScore = None, node_type = ''question''\<rparr>]"
       "[\<lparr>node_id = ''b'', radius = 5, masteryScore = None, node_type = ''question''\<rparr>]"
       "[\<lparr>node_id = ''zz'', radius = 5, masteryScore = None, node_type = ''question''\<rparr>,
         \<lparr>node_id = ''ghost'', radius = 5, masteryScore = None, node_type = ''question''\<rparr>]"]
  by (simp add: Let_def resetView_target_def nodesToFrame_def frame_coords_def
      coord_or_0_def fit_bounds_def identity_transform_def)

section \<open>Hit-testing: topmost node, centre and far points\<close>

lemma find_rev_Some:
  "find P (rev xs) = Some n \<longleftrightarrow>
     (\<exists>before after. xs = before @ n # after \<and> P n \<and> (\<forall>m\<in>set after. \<not> P m))"
proof (induction xs rule: rev_induct)
  case Nil
  then show ?case by simp
next
  case (snoc x xs)
  show ?case
  proof (cases "P x")
    case True
    have "(\<exists>before after. xs @ [x] = before @ n # after \<and> P n \<and> (\<forall>m\<in>set after. \<not> P m)) \<longleftrightarrow> n = x"
    proof
      assume "\<exists>before after. xs @ [x] = before @ n # after \<and> P n \<and> (\<forall>m\<in>set after. \<not> P m)"
      then obtain before after where e: "xs @ [x] = before @ n # after" and a: "\<forall>m\<in>set after. \<not> P m"
        by blast
      show "n = x"
      proof (cases after rule: rev_cases)
        case Nil
        with e show ?thesis by simp
      next
        case (snoc as z)
        with e have "z = x" by simp
        with snoc a True show ?thesis by simp
      qed
    next
      assume "n = x"
      with True show "\<exists>before after. xs @ [x] = before @ n # after \<and> P n \<and> (\<forall>m\<in>set after. \<not> P m)"
        by (intro exI [of _ xs] exI [of _ "[]"]) simp
    qed
    with True show ?thesis by auto
  next
    case False
    have "(\<exists>before after. xs @ [x] = before @ n # after \<and> P n \<and> (\<forall>m\<in>set after. \<not> P m))
        \<longleftrightarrow> (\<exists>before after. xs = before @ n # after \<and> P n \<and> (\<forall>m\<in>set after. \<not> P m))"
    proof
      assume "\<exists>before after. xs @ [x] = before @ n # after \<and> P n \<and> (\<forall>m\<in>set after. \<not> P m)"
      then obtain before after where e: "xs @ [x] = before @ n # after" and p: "P n"
        and a: "\<forall>m\<in>set after. \<not> P m" by blast
      show "\<exists>before after. xs = before @ n # after \<and> P n \<and> (\<forall>m\<in>set after. \<not> P m)"
      proof (cases after rule: rev_cases)
        case Nil
        with e p False show ?thesis by simp
      next
        case (snoc as z)
        with e have "xs = before @ n # as" by simp
        with p a snoc show ?thesis by auto
      qed
    next
      assume "\<exists>before after. xs = before @ n # after \<and> P n \<and> (\<forall>m\<in>set after. \<not> P m)"
      then obtain before after where e: "xs = before @ n # after" and p: "P n"
        and a: "\<forall>m\<in>set after. \<not> P m" by blast
      show "\<exists>before after. xs @ [x] = before @ n # after \<and> P n \<and> (\<forall>m\<in>set after. \<not> P m)"
        using e p a False by (intro exI [of _ before] exI [of _ "after @ [x]"]) simp
    qed
    with False snoc.IH show ?thesis by simp
  qed
qed

lemma find_rev_None: "find P (rev xs) = None \<longleftrightarrow> (\<forall>m\<in>set xs. \<not> P m)"
  by (auto simp: find_None_iff)

lemma center_hit:
  assumes "t_k tr \<noteq> 0" "0 \<le> radius n" "positions (node_id n) = Some pos"
  shows "node_hit tr positions (p_x pos) (p_y pos) n"
  using assms by (simp add: node_hit_def scaledHitRadius_def)

lemma model_far_no_hit:
  assumes "positions (node_id n) = Some pos"
     and "((radius n + 5) / t_k tr)\<^sup>2 \<le> (x - p_x pos)\<^sup>2 + (y - p_y pos)\<^sup>2"
   shows "\<not> node_hit tr positions x y n"
  using assms by (simp add: node_hit_def scaledHitRadius_def power2_eq_square)

lemma screen_far_no_hit:
  assumes "positions (node_id n) = Some pos" 
     and "(radius n + 5)\<^sup>2 \<le> (sx - (p_x pos * t_k tr + t_x tr))\<^sup>2 + (sy - (p_y pos * t_k tr + t_y tr))\<^sup>2"
   shows "\<not> node_hit tr positions ((sx - t_x tr) / t_k tr) ((sy - t_y tr) / t_k tr)  n"
proof (cases "t_k tr = 0")
  case True
  then show ?thesis by (simp add: node_hit_def scaledHitRadius_def assms(1) power2_eq_square not_less)
next
  case False
  have a: "(sx - t_x tr) / t_k tr - p_x pos = (sx - (p_x pos * t_k tr + t_x tr)) / t_k tr"
    using False by (simp add: field_simps)
  have b: "(sy - t_y tr) / t_k tr - p_y pos = (sy - (p_y pos * t_k tr + t_y tr)) / t_k tr"
    using False by (simp add: field_simps)
  have k2: "0 < (t_k tr)\<^sup>2" using False by simp
  have "((radius n + 5) / t_k tr)\<^sup>2 \<le> ((sx - (p_x pos * t_k tr + t_x tr)) / t_k tr)\<^sup>2 + ((sy - (p_y pos * t_k tr + t_y tr)) / t_k tr)\<^sup>2"
    using assms(2) k2 by (simp add: power_divide add_divide_distrib [symmetric] divide_right_mono)
  then show ?thesis
    using assms(1) by (simp add: node_hit_def scaledHitRadius_def a b power2_eq_square)
qed


text \<open>
  C9, as stated, fails when the distance is measured in model space, where the node
  centres and radii live: the hit radius is \<^verbatim>\<open>(radius + 5) / k\<close>, so at scale 0.5 a
  model point 15 units from the centre of a node of radius 5 is a hit, although it is
  farther than radius plus margin (10 units). The screen point (7.5, 0) maps to it.
\<close>

theorem findNodeAtPos_far_counterexample:
  "getMousePos (Some (0, 0)) \<lparr>t_k = 0.5, t_x = 0, t_y = 0\<rparr>
     \<lparr>clientX = 7.5, clientY = 0, deltaY = 0\<rparr> True = (15, 0)
   \<and> findNodeAtPos \<lparr>t_k = 0.5, t_x = 0, t_y = 0\<rparr>
        [''a'' \<mapsto> \<lparr>p_x = 0, p_y = 0, p_vx = 0, p_vy = 0\<rparr>]
        [\<lparr>node_id = ''a'', radius = 5, masteryScore = None, node_type = ''question''\<rparr>] 15 0
      = Some \<lparr>node_id = ''a'', radius = 5, masteryScore = None, node_type = ''question''\<rparr>
   \<and> radius \<lparr>node_id = ''a'', radius = 5, masteryScore = None, node_type = ''question''\<rparr> + 5
      < \<bar>15 - p_x \<lparr>p_x = 0, p_y = 0, p_vx = 0, p_vy = 0\<rparr>\<bar>"
  by (simp add: getMousePos_def findNodeAtPos_def node_hit_def scaledHitRadius_def
      power2_eq_square)

text \<open>
  C9 (amended). \<^verbatim>\<open>findNodeAtPos\<close> returns the last node of the list (the topmost,
  drawn latest) whose hit circle contains the model point, and null exactly when no
  node's does. For a non-zero scale and a non-negative radius, the centre of a node
  that has a position is a hit, and \<^verbatim>\<open>getMousePos\<close> maps the on-screen centre to it.
  A screen point whose on-screen distance from the drawn centre of every node is at
  least radius plus 5 pixels is never a hit; in model space the threshold is
  \<^verbatim>\<open>(radius + 5) / k\<close>.
\<close>

theorem findNodeAtPos_topmost_hit:
  "(findNodeAtPos tr positions nodes x y = Some n \<longleftrightarrow>
      (\<exists>before after. nodes = before @ n # after \<and> node_hit tr positions x y n
         \<and> (\<forall>m\<in>set after. \<not> node_hit tr positions x y m)))
   \<and> (findNodeAtPos tr positions nodes x y = None \<longleftrightarrow>
      (\<forall>m\<in>set nodes. \<not> node_hit tr positions x y m))
   \<and> (t_k tr \<noteq> 0 \<and> 0 \<le> radius c \<and> c \<in> set nodes \<and> positions (node_id c) = Some pos
      \<longrightarrow> findNodeAtPos tr positions nodes (p_x pos) (p_y pos) \<noteq> None
          \<and> getMousePos (Some (rleft, rtop)) tr
               \<lparr>clientX = rleft + (p_x pos * t_k tr + t_x tr),
                clientY = rtop + (p_y pos * t_k tr + t_y tr), deltaY = 0\<rparr> True
             = (p_x pos, p_y pos))
   \<and> ((\<forall>m\<in>set nodes. \<forall>q. positions (node_id m) = Some q \<longrightarrow>
          (radius m + 5)\<^sup>2 \<le> (sx - (p_x q * t_k tr + t_x tr))\<^sup>2
                               + (sy - (p_y q * t_k tr + t_y tr))\<^sup>2)
      \<longrightarrow> findNodeAtPos tr positions nodes ((sx - t_x tr) / t_k tr) ((sy - t_y tr) / t_k tr)
          = None)
   \<and> ((\<forall>m\<in>set nodes. \<forall>q. positions (node_id m) = Some q \<longrightarrow>
          ((radius m + 5) / t_k tr)\<^sup>2 \<le> (mx - p_x q)\<^sup>2 + (my - p_y q)\<^sup>2)
      \<longrightarrow> findNodeAtPos tr positions nodes mx my = None)"
proof -
  have a: "findNodeAtPos tr positions nodes x y = Some n \<longleftrightarrow>
      (\<exists>before after. nodes = before @ n # after \<and> node_hit tr positions x y n
         \<and> (\<forall>m\<in>set after. \<not> node_hit tr positions x y m))"
    unfolding findNodeAtPos_def by (rule find_rev_Some)
  have b: "findNodeAtPos tr positions nodes x y = None \<longleftrightarrow>
      (\<forall>m\<in>set nodes. \<not> node_hit tr positions x y m)"
    unfolding findNodeAtPos_def by (rule find_rev_None)
  have c: "findNodeAtPos tr positions nodes (p_x pos) (p_y pos) \<noteq> None
          \<and> getMousePos (Some (rleft, rtop)) tr
               \<lparr>clientX = rleft + (p_x pos * t_k tr + t_x tr),
                clientY = rtop + (p_y pos * t_k tr + t_y tr), deltaY = 0\<rparr> True
             = (p_x pos, p_y pos)"
    if h: "t_k tr \<noteq> 0 \<and> 0 \<le> radius c \<and> c \<in> set nodes \<and> positions (node_id c) = Some pos"
  proof
    have "node_hit tr positions (p_x pos) (p_y pos) c"
      using h center_hit by blast
    with h show "findNodeAtPos tr positions nodes (p_x pos) (p_y pos) \<noteq> None"
      unfolding findNodeAtPos_def find_rev_None by blast
    show "getMousePos (Some (rleft, rtop)) tr
               \<lparr>clientX = rleft + (p_x pos * t_k tr + t_x tr),
                clientY = rtop + (p_y pos * t_k tr + t_y tr), deltaY = 0\<rparr> True
             = (p_x pos, p_y pos)"
      using h by (simp add: getMousePos_def)
  qed
  have d: "findNodeAtPos tr positions nodes ((sx - t_x tr) / t_k tr) ((sy - t_y tr) / t_k tr)
          = None"
    if h: "\<forall>m\<in>set nodes. \<forall>q. positions (node_id m) = Some q \<longrightarrow>
          (radius m + 5)\<^sup>2 \<le> (sx - (p_x q * t_k tr + t_x tr))\<^sup>2
                               + (sy - (p_y q * t_k tr + t_y tr))\<^sup>2"
    unfolding findNodeAtPos_def find_rev_None
  proof
    fix m assume m: "m \<in> set nodes"
    show "\<not> node_hit tr positions ((sx - t_x tr) / t_k tr) ((sy - t_y tr) / t_k tr) m"
    proof (cases "positions (node_id m)")
      case None
      then show ?thesis by (simp add: node_hit_def)
    next
      case (Some q)
      with h m show ?thesis using screen_far_no_hit by blast
    qed
  qed
  have e: "findNodeAtPos tr positions nodes mx my = None"
    if h: "\<forall>m\<in>set nodes. \<forall>q. positions (node_id m) = Some q \<longrightarrow>
          ((radius m + 5) / t_k tr)\<^sup>2 \<le> (mx - p_x q)\<^sup>2 + (my - p_y q)\<^sup>2"
    unfolding findNodeAtPos_def find_rev_None
  proof
    fix m assume m: "m \<in> set nodes"
    show "\<not> node_hit tr positions mx my m"
    proof (cases "positions (node_id m)")
      case None
      then show ?thesis by (simp add: node_hit_def)
    next
      case (Some q)
      with h m show ?thesis using model_far_no_hit by blast
    qed
  qed
  show ?thesis using a b c d e by blast
qed

theorem findNodeAtPos_topmost_hit_witness:
  "let a = \<lparr>node_id = ''a'', radius = 5, masteryScore = None, node_type = ''question''\<rparr>;
       b = \<lparr>node_id = ''b'', radius = 5, masteryScore = None, node_type = ''question''\<rparr>;
       pa = \<lparr>p_x = 0, p_y = 0, p_vx = 0, p_vy = 0\<rparr>;
       pb = \<lparr>p_x = 3, p_y = 0, p_vx = 0, p_vy = 0\<rparr>;
       P = [''a'' \<mapsto> pa, ''b'' \<mapsto> pb];
       tr = \<lparr>t_k = 2, t_x = 10, t_y = 0\<rparr>
   in findNodeAtPos tr P [a, b] 1 0 = Some b
      \<and> node_hit tr P 1 0 a \<and> node_hit tr P 1 0 b
      \<and> t_k tr \<noteq> 0 \<and> 0 \<le> radius a \<and> a \<in> set [a, b] \<and> P (node_id a) = Some pa
      \<and> findNodeAtPos tr P [a, b] (p_x pa) (p_y pa) \<noteq> None
      \<and> getMousePos (Some (0, 0)) tr \<lparr>clientX = 10, clientY = 0, deltaY = 0\<rparr> True = (0, 0)
      \<and> (\<forall>m\<in>set [a, b]. \<forall>q. P (node_id m) = Some q \<longrightarrow>
            (radius m + 5)\<^sup>2 \<le> (1000 - (p_x q * t_k tr + t_x tr))\<^sup>2
                                 + (0 - (p_y q * t_k tr + t_y tr))\<^sup>2)
      \<and> findNodeAtPos tr P [a, b] ((1000 - t_x tr) / t_k tr) ((0 - t_y tr) / t_k tr) = None
      \<and> (\<forall>m\<in>set [a, b]. \<forall>q. P (node_id m) = Some q \<longrightarrow>
            ((radius m + 5) / t_k tr)\<^sup>2 \<le> (8 - p_x q)\<^sup>2 + (0 - p_y q)\<^sup>2)
      \<and> findNodeAtPos tr P [a, b] 8 0 = None"
  using findNodeAtPos_topmost_hit
    [of "\<lparr>t_k = 2, t_x = 10, t_y = 0\<rparr>"
        "[''a'' \<mapsto> \<lparr>p_x = 0, p_y = 0, p_vx = 0, p_vy = 0\<rparr>,
          ''b'' \<mapsto> \<lparr>p_x = 3, p_y = 0, p_vx = 0, p_vy = 0\<rparr>]"
        "[\<lparr>node_id = ''a'', radius = 5, masteryScore = None, node_type = ''question''\<rparr>,
          \<lparr>node_id = ''b'', radius = 5, masteryScore = None, node_type = ''question''\<rparr>]"
        1 0
        "\<lparr>node_id = ''b'', radius = 5, masteryScore = None, node_type = ''question''\<rparr>"
        "\<lparr>node_id = ''a'', radius = 5, masteryScore = None, node_type = ''question''\<rparr>"
        "\<lparr>p_x = 0, p_y = 0, p_vx = 0, p_vy = 0\<rparr>" 0 0 1000 0 8 0]
  by (simp add: Let_def findNodeAtPos_def node_hit_def scaledHitRadius_def getMousePos_def
      power2_eq_square)

section \<open>Reconciling the position store\<close>

lemma reconcile_loop_other:
  "k \<notin> node_id ` set nodes \<Longrightarrow>
   fst (reconcile_loop rnd dims old nodes (new, i)) k = new k"
proof (induction nodes arbitrary: new i)
  case Nil
  then show ?case by simp
next
  case (Cons n ns)
  then show ?case by (cases "old (node_id n)") auto
qed

lemma reconcile_loop_dom:
  "dom (fst (reconcile_loop rnd dims old nodes (new, i))) = dom new \<union> node_id ` set nodes"
proof (induction nodes arbitrary: new i)
  case Nil
  then show ?case by simp
next
  case (Cons n ns)
  then show ?case by (cases "old (node_id n)") auto
qed

lemma reconcile_loop_existing:
  "k \<in> node_id ` set nodes \<Longrightarrow> old k = Some p \<Longrightarrow>
   fst (reconcile_loop rnd dims old nodes (new, i)) k = Some p"
proof (induction nodes arbitrary: new i)
  case Nil
  then show ?case by simp
next
  case (Cons n ns)
  show ?case
  proof (cases "k \<in> node_id ` set ns")
    case True
    with Cons show ?thesis by (cases "old (node_id n)") auto
  next
    case False
    with Cons.prems have k: "node_id n = k" by auto
    with Cons.prems False show ?thesis
      by (simp add: reconcile_loop_other)
  qed
qed

lemma reconcile_loop_fresh:
  "k \<in> node_id ` set nodes \<Longrightarrow> old k = None \<Longrightarrow>
   \<exists>j. fst (reconcile_loop rnd dims old nodes (new, i)) k
        = Some (fresh_position dims (rnd j) (rnd (j + 1)))"
proof (induction nodes arbitrary: new i)
  case Nil
  then show ?case by simp
next
  case (Cons n ns)
  show ?case
  proof (cases "k \<in> node_id ` set ns")
    case True
    with Cons show ?thesis by (cases "old (node_id n)") auto
  next
    case False
    with Cons.prems have k: "node_id n = k" by auto
    with Cons.prems False show ?thesis
      by (auto simp add: reconcile_loop_other)
  qed
qed

lemma fresh_position_near:
  assumes "0 \<le> r1" "r1 < 1" "0 \<le> r2" "r2 < 1"
  shows "\<bar>p_x (fresh_position dims r1 r2) - width dims / 2\<bar> \<le> 50
       \<and> \<bar>p_y (fresh_position dims r1 r2) - height dims / 2\<bar> \<le> 50
       \<and> p_vx (fresh_position dims r1 r2) = 0 \<and> p_vy (fresh_position dims r1 r2) = 0"
  using assms by (simp add: fresh_position_def abs_le_iff)


lemma reconcile_loop_append:
  "reconcile_loop rnd dims old (xs @ ys) acc
   = reconcile_loop rnd dims old ys (reconcile_loop rnd dims old xs acc)"
proof (induction xs arbitrary: acc)
  case Nil
  then show ?case by simp
next
  case (Cons n ns)
  then show ?case by (cases acc; cases "old (node_id n)") simp_all
qed

lemma reconcile_loop_index:
  "snd (reconcile_loop rnd dims old ns (new, i))
   = i + 2 * length (filter (\<lambda>m. old (node_id m) = None) ns)"
proof (induction ns arbitrary: new i)
  case Nil
  then show ?case by simp
next
  case (Cons n ns)
  then show ?case by (cases "old (node_id n)") simp_all
qed

lemma reconcile_loop_fresh_exact:
  assumes "old (node_id n) = None" "node_id n \<notin> node_id ` set after"
  shows "fst (reconcile_loop rnd dims old (before @ n # after) (new, i)) (node_id n)
     = Some (fresh_position dims
         (rnd (i + 2 * length (filter (\<lambda>m. old (node_id m) = None) before)))
         (rnd (i + 2 * length (filter (\<lambda>m. old (node_id m) = None) before) + 1)))"
proof -
  let ?j = "i + 2 * length (filter (\<lambda>m. old (node_id m) = None) before)"
  obtain new' where b: "reconcile_loop rnd dims old before (new, i) = (new', ?j)"
    using reconcile_loop_index [of rnd dims old before new i]
    by (cases "reconcile_loop rnd dims old before (new, i)") simp
  show ?thesis
    using assms by (simp add: reconcile_loop_append b reconcile_loop_other)
qed

lemma reconcile_fresh_draws:
  assumes "k \<in> node_id ` set nodes" "old k = None"
  shows "\<exists>j\<ge>i. reconcile rnd i dims old nodes k
     = Some \<lparr>p_x = width dims / 2 + (rnd j - 0.5) * 100,
             p_y = height dims / 2 + (rnd (j + 1) - 0.5) * 100,
             p_vx = 0, p_vy = 0\<rparr>"
proof -
  have "\<exists>n\<in>set nodes. node_id n = k" using assms(1) by auto
  then obtain before n after where s: "nodes = before @ n # after" "node_id n = k"
    "\<forall>z\<in>set after. node_id z \<noteq> k"
    using split_list_last_prop [of nodes "\<lambda>m. node_id m = k"] by blast
  then have "node_id n \<notin> node_id ` set after" by auto
  from reconcile_loop_fresh_exact [OF _ this, of old rnd dims before Map.empty i] assms(2) s
  show ?thesis
    unfolding reconcile_def fresh_position_def
    by (intro exI [of _ "i + 2 * length (filter (\<lambda>m. old (node_id m) = None) before)"]) simp
qed

text \<open>
  C8. After a rebuild the position store holds an entry for exactly the ids of the
  current nodes. An id that had an entry keeps it unchanged (position and velocity);
  an id that is not among the new nodes has none. An id that had no entry gets a fresh
  one with zero velocity whose position is randomized: its x is the centre's x plus
  \<^verbatim>\<open>(r - 0.5) * 100\<close> for one draw \<open>r\<close> of \<^verbatim>\<open>Math.random\<close> and its y likewise for the
  next draw, so it lies within 50 units of the viewport centre on each axis (draws lie
  in [0, 1)). The draws are those of the rebuild itself, two per fresh node in list
  order: the last node of an id without an entry uses the draws numbered \<open>i + 2 m\<close> and
  \<open>i + 2 m + 1\<close>, where \<open>i\<close> is the first draw of the rebuild and \<open>m\<close> the number of
  fresh nodes before it. So an id that was removed by one rebuild and comes back in a
  later one gets a fresh entry, whatever its velocity was before.
\<close>

theorem reconcile_store:
  "dom (reconcile rnd i dims old nodes) = node_id ` set nodes
   \<and> (k1 \<in> node_id ` set nodes \<and> old k1 = Some p
      \<longrightarrow> reconcile rnd i dims old nodes k1 = Some p)
   \<and> (k2 \<notin> node_id ` set nodes \<longrightarrow> reconcile rnd i dims old nodes k2 = None)
   \<and> (k3 \<in> node_id ` set nodes \<and> old k3 = None
      \<longrightarrow> (\<exists>j\<ge>i. reconcile rnd i dims old nodes k3
             = Some \<lparr>p_x = width dims / 2 + (rnd j - 0.5) * 100,
                     p_y = height dims / 2 + (rnd (j + 1) - 0.5) * 100,
                     p_vx = 0, p_vy = 0\<rparr>))
   \<and> (k3 \<in> node_id ` set nodes \<and> old k3 = None \<and> unit_draws rnd
      \<longrightarrow> (\<exists>q. reconcile rnd i dims old nodes k3 = Some q \<and> p_vx q = 0 \<and> p_vy q = 0
             \<and> \<bar>p_x q - width dims / 2\<bar> \<le> 50 \<and> \<bar>p_y q - height dims / 2\<bar> \<le> 50))
   \<and> (nodes = before @ n # after \<and> node_id n \<notin> node_id ` set after
        \<and> old (node_id n) = None
      \<longrightarrow> reconcile rnd i dims old nodes (node_id n)
          = Some \<lparr>p_x = width dims / 2
                      + (rnd (i + 2 * length (filter (\<lambda>m. old (node_id m) = None) before))
                         - 0.5) * 100,
                  p_y = height dims / 2
                      + (rnd (i + 2 * length (filter (\<lambda>m. old (node_id m) = None) before) + 1)
                         - 0.5) * 100,
                  p_vx = 0, p_vy = 0\<rparr>)
   \<and> (k4 \<notin> node_id ` set nodes \<and> k4 \<in> node_id ` set nodes'
      \<longrightarrow> (\<exists>j\<ge>i'. reconcile rnd i' dims' (reconcile rnd i dims old nodes) nodes' k4
             = Some \<lparr>p_x = width dims' / 2 + (rnd j - 0.5) * 100,
                     p_y = height dims' / 2 + (rnd (j + 1) - 0.5) * 100,
                     p_vx = 0, p_vy = 0\<rparr>))
   \<and> (k4 \<notin> node_id ` set nodes \<and> k4 \<in> node_id ` set nodes' \<and> unit_draws rnd
      \<longrightarrow> (\<exists>q. reconcile rnd i' dims' (reconcile rnd i dims old nodes) nodes' k4 = Some q
             \<and> p_vx q = 0 \<and> p_vy q = 0
             \<and> \<bar>p_x q - width dims' / 2\<bar> \<le> 50 \<and> \<bar>p_y q - height dims' / 2\<bar> \<le> 50))"
proof -
  have d: "dom (reconcile rnd i dims old nodes) = node_id ` set nodes"
    by (simp add: reconcile_def reconcile_loop_dom)
  have keep: "reconcile rnd i dims old nodes k1 = Some p"
    if "k1 \<in> node_id ` set nodes \<and> old k1 = Some p"
    using that by (simp add: reconcile_def reconcile_loop_existing)
  have gone: "reconcile rnd j ds od ns k = None" if "k \<notin> node_id ` set ns" for j ds od ns k
    using that by (simp add: reconcile_def reconcile_loop_other)
  have fresh: "\<exists>q. reconcile rnd j ds od ns k = Some q \<and> p_vx q = 0 \<and> p_vy q = 0
             \<and> \<bar>p_x q - width ds / 2\<bar> \<le> 50 \<and> \<bar>p_y q - height ds / 2\<bar> \<le> 50"
    if h: "k \<in> node_id ` set ns" "od k = None" "unit_draws rnd" for j ds od ns k
  proof -
    obtain m where m: "reconcile rnd j ds od ns k
        = Some (fresh_position ds (rnd m) (rnd (m + 1)))"
      using reconcile_loop_fresh [of k ns od rnd ds Map.empty j] h(1) h(2)
      unfolding reconcile_def by blast
    have "0 \<le> rnd m" "rnd m < 1" "0 \<le> rnd (m + 1)" "rnd (m + 1) < 1"
      using h(3) by (simp_all add: unit_draws_def)
    then show ?thesis using m fresh_position_near by blast
  qed
  have drawn: "\<exists>j\<ge>i. reconcile rnd i dims old nodes k3
             = Some \<lparr>p_x = width dims / 2 + (rnd j - 0.5) * 100,
                     p_y = height dims / 2 + (rnd (j + 1) - 0.5) * 100,
                     p_vx = 0, p_vy = 0\<rparr>"
    if h: "k3 \<in> node_id ` set nodes \<and> old k3 = None"
    using h by (intro reconcile_fresh_draws) simp_all
  have new: "\<exists>q. reconcile rnd i dims old nodes k3 = Some q \<and> p_vx q = 0 \<and> p_vy q = 0
             \<and> \<bar>p_x q - width dims / 2\<bar> \<le> 50 \<and> \<bar>p_y q - height dims / 2\<bar> \<le> 50"
    if h: "k3 \<in> node_id ` set nodes \<and> old k3 = None \<and> unit_draws rnd"
    using h by (intro fresh) simp_all
  have exact: "reconcile rnd i dims old nodes (node_id n)
          = Some \<lparr>p_x = width dims / 2
                      + (rnd (i + 2 * length (filter (\<lambda>m. old (node_id m) = None) before))
                         - 0.5) * 100,
                  p_y = height dims / 2
                      + (rnd (i + 2 * length (filter (\<lambda>m. old (node_id m) = None) before) + 1)
                         - 0.5) * 100,
                  p_vx = 0, p_vy = 0\<rparr>"
    if h: "nodes = before @ n # after \<and> node_id n \<notin> node_id ` set after
        \<and> old (node_id n) = None"
    using h reconcile_loop_fresh_exact [of old n after rnd dims before Map.empty i]
    by (simp add: reconcile_def fresh_position_def)
  have redrawn: "\<exists>j\<ge>i'. reconcile rnd i' dims' (reconcile rnd i dims old nodes) nodes' k4
             = Some \<lparr>p_x = width dims' / 2 + (rnd j - 0.5) * 100,
                     p_y = height dims' / 2 + (rnd (j + 1) - 0.5) * 100,
                     p_vx = 0, p_vy = 0\<rparr>"
    if h: "k4 \<notin> node_id ` set nodes \<and> k4 \<in> node_id ` set nodes'"
  proof -
    have "reconcile rnd i dims old nodes k4 = None"
      using h by (simp add: gone)
    then show ?thesis
      using h by (intro reconcile_fresh_draws) simp_all
  qed
  have again: "\<exists>q. reconcile rnd i' dims' (reconcile rnd i dims old nodes) nodes' k4 = Some q
             \<and> p_vx q = 0 \<and> p_vy q = 0
             \<and> \<bar>p_x q - width dims' / 2\<bar> \<le> 50 \<and> \<bar>p_y q - height dims' / 2\<bar> \<le> 50"
    if h: "k4 \<notin> node_id ` set nodes \<and> k4 \<in> node_id ` set nodes' \<and> unit_draws rnd"
  proof -
    have "reconcile rnd i dims old nodes k4 = None"
      using h by (simp add: gone)
    then show ?thesis
      using h by (intro fresh) simp_all
  qed
  show ?thesis
    using d keep gone [of k2 nodes i dims old] drawn new exact redrawn again
    by (intro conjI impI) simp_all
qed

section \<open>Force mode: zero distances and settling\<close>

lemma distance_or_1_pos: "0 < distance_or_1 dx dy"
proof -
  have "0 \<le> sqrt (dx * dx + dy * dy)" by simp
  then show ?thesis unfolding distance_or_1_def Let_def
    by (cases "sqrt (dx * dx + dy * dy) = 0") (simp_all del: real_sqrt_eq_zero_cancel_iff real_sqrt_ge_0_iff real_sqrt_gt_0_iff add: less_le)
qed

lemma distance_or_1_zero: "distance_or_1 0 0 = 1"
  by (simp add: distance_or_1_def)

lemma repel_coincident:
  "p_x a = p_x b \<Longrightarrow> p_y a = p_y b \<Longrightarrow> repel a b = a"
  by (simp add: repel_def distance_or_1_def)


lemma spring_coincident:
  assumes "positions (source l) = Some s" "positions (target l) = Some t"
    and "p_x s = p_x t" "p_y s = p_y t"
  shows "spring l positions = positions"
proof -
  have u: "positions(source l \<mapsto> s) = positions"
    using assms(1) by (simp add: map_upd_triv)
  have v: "positions(target l \<mapsto> t) = positions"
    using assms(2) by (simp add: map_upd_triv)
  show ?thesis
    using assms by (simp add: spring_def distance_or_1_def u v)
qed

text \<open>
  C7. The distance used by the repulsion and by the springs is never zero: a zero
  distance is replaced by 1. For two coincident nodes the repulsion divides by 1, the
  force is -150 and the contribution to the velocity is zero; for a link whose ends
  coincide the spring force is (1 - 70) * 0.06 and the velocities are unchanged.
\<close>

theorem zero_distance_clamped:
  "distance_or_1 0 0 = 1
   \<and> 0 < distance_or_1 dx dy
   \<and> (p_x a = p_x b \<and> p_y a = p_y b
      \<longrightarrow> distance_or_1 (p_x b - p_x a) (p_y b - p_y a) = 1
          \<and> repulsion_force (distance_or_1 (p_x b - p_x a) (p_y b - p_y a)) = -150
          \<and> repel a b = a)
   \<and> (positions (source l) = Some s \<and> positions (target l) = Some t
        \<and> p_x s = p_x t \<and> p_y s = p_y t
      \<longrightarrow> distance_or_1 (p_x t - p_x s) (p_y t - p_y s) = 1
          \<and> link_force (distance_or_1 (p_x t - p_x s) (p_y t - p_y s)) = -4.14
          \<and> spring l positions = positions)"
proof -
  have r: "repulsion_force 1 = -150"
    by (simp add: repulsion_force_def REPULSION_STRENGTH_def)
  have f: "link_force 1 = -4.14"
    by (simp add: link_force_def LINK_DISTANCE_def LINK_STRENGTH_def)
  show ?thesis
    using distance_or_1_pos [of dx dy] repel_coincident [of a b]
      spring_coincident [of positions l s t]
    by (auto simp: distance_or_1_zero r f)
qed

lemma stable_fixed: "isStable sim \<Longrightarrow> runGraphSimulation nodes links dims None sim = sim"
  by (simp add: runGraphSimulation_def)

lemma stable_fixed_n: "isStable sim \<Longrightarrow> ((runGraphSimulation nodes links dims None) ^^ n) sim = sim"
  by (induction n) (simp_all add: stable_fixed)

lemma settles:
  "snd (graph_tick nodes links dims None (nodePositions sim)) < ENERGY_THRESHOLD \<Longrightarrow>
   isStable (runGraphSimulation nodes links dims None sim)"
  by (cases "graph_tick nodes links dims None (nodePositions sim)") (simp add: runGraphSimulation_def)


text \<open>
  C6. A tick of the force simulation that runs without a drag and whose total energy
  is below the threshold sets the settled flag; while the flag is set and no node is
  dragged, a tick returns the simulation unchanged, for any number of ticks.
\<close>

theorem settled_simulation_halts:
  "(snd (graph_tick nodes links dims None (nodePositions sim)) < ENERGY_THRESHOLD
      \<longrightarrow> isStable (runGraphSimulation nodes links dims None sim))
   \<and> (isStable sim'
      \<longrightarrow> runGraphSimulation nodes' links' dims' None sim' = sim'
          \<and> ((runGraphSimulation nodes' links' dims' None) ^^ n) sim' = sim')"
  using settles [of nodes links dims sim] stable_fixed [of sim' nodes' links' dims']
    stable_fixed_n [of sim' n nodes' links' dims']
  by blast

section \<open>Instances\<close>

theorem reconcile_store_witness:
  "let a = \<lparr>node_id = ''a'', radius = 5, masteryScore = None, node_type = ''question''\<rparr>;
       b = \<lparr>node_id = ''b'', radius = 5, masteryScore = None, node_type = ''question''\<rparr>;
       c = \<lparr>node_id = ''c'', radius = 5, masteryScore = None, node_type = ''question''\<rparr>;
       e = \<lparr>node_id = ''e'', radius = 5, masteryScore = None, node_type = ''question''\<rparr>;
       pa = \<lparr>p_x = 1, p_y = 2, p_vx = 3, p_vy = 4\<rparr>;
       pb = \<lparr>p_x = 5, p_y = 6, p_vx = 7, p_vy = 8\<rparr>;
       old = [''a'' \<mapsto> pa, ''b'' \<mapsto> pb];
       d = \<lparr>width = 200, height = 100\<rparr>;
       rnd = (\<lambda>i. 1 / (real i + 2))
   in dom (reconcile rnd 1 d old [a, c, e]) = {''a'', ''c'', ''e''}
      \<and> ''a'' \<in> node_id ` set [a, c, e] \<and> old ''a'' = Some pa
      \<and> reconcile rnd 1 d old [a, c, e] ''a'' = Some pa
      \<and> ''b'' \<notin> node_id ` set [a, c, e] \<and> reconcile rnd 1 d old [a, c, e] ''b'' = None
      \<and> ''c'' \<in> node_id ` set [a, c, e] \<and> old ''c'' = None \<and> unit_draws rnd
      \<and> rnd 1 = 1 / 3 \<and> rnd 2 = 1 / 4 \<and> rnd 3 = 1 / 5 \<and> rnd 4 = 1 / 6
      \<and> reconcile rnd 1 d old [a, c, e] ''c''
          = Some \<lparr>p_x = 250 / 3, p_y = 25, p_vx = 0, p_vy = 0\<rparr>
      \<and> [a, c, e] = [a, c] @ e # [] \<and> node_id e \<notin> node_id ` set [] \<and> old (node_id e) = None
      \<and> 1 + 2 * length (filter (\<lambda>m. old (node_id m) = None) [a, c]) = 3
      \<and> reconcile rnd 1 d old [a, c, e] ''e''
          = Some \<lparr>p_x = 70, p_y = 50 / 3, p_vx = 0, p_vy = 0\<rparr>
      \<and> ''b'' \<in> node_id ` set [a, b, c]
      \<and> rnd 5 = 1 / 7 \<and> rnd 6 = 1 / 8
      \<and> reconcile rnd 5 d (reconcile rnd 1 d old [a, c, e]) [a, b, c] ''b''
          = Some \<lparr>p_x = 450 / 7, p_y = 25 / 2, p_vx = 0, p_vy = 0\<rparr>"
  using reconcile_store
    [where rnd = "\<lambda>i. 1 / (real i + 2)" and i = 1 and dims = "\<lparr>width = 200, height = 100\<rparr>"
       and old = "[''a'' \<mapsto> \<lparr>p_x = 1, p_y = 2, p_vx = 3, p_vy = 4\<rparr>,
                   ''b'' \<mapsto> \<lparr>p_x = 5, p_y = 6, p_vx = 7, p_vy = 8\<rparr>]"
       and nodes = "[\<lparr>node_id = ''a'', radius = 5, masteryScore = None, node_type = ''question''\<rparr>,
          \<lparr>node_id = ''c'', radius = 5, masteryScore = None, node_type = ''question''\<rparr>,
          \<lparr>node_id = ''e'', radius = 5, masteryScore = None, node_type = ''question''\<rparr>]"
       and ?k1.0 = "''a''" and p = "\<lparr>p_x = 1, p_y = 2, p_vx = 3, p_vy = 4\<rparr>"
       and ?k2.0 = "''b''" and ?k3.0 = "''c''"
       and before = "[\<lparr>node_id = ''a'', radius = 5, masteryScore = None, node_type = ''question''\<rparr>,
          \<lparr>node_id = ''c'', radius = 5, masteryScore = None, node_type = ''question''\<rparr>]"
       and n = "\<lparr>node_id = ''e'', radius = 5, masteryScore = None, node_type = ''question''\<rparr>"
       and after = "[]" and ?k4.0 = "''b''"
       and nodes' = "[\<lparr>node_id = ''a'', radius = 5, masteryScore = None, node_type = ''question''\<rparr>,
          \<lparr>node_id = ''b'', radius = 5, masteryScore = None, node_type = ''question''\<rparr>,
          \<lparr>node_id = ''c'', radius = 5, masteryScore = None, node_type = ''question''\<rparr>]"
       and i' = 5 and dims' = "\<lparr>width = 200, height = 100\<rparr>"]
  by (simp add: Let_def reconcile_def fresh_position_def unit_draws_def insert_commute)

theorem zero_distance_clamped_witness:
  "let a = \<lparr>p_x = 10, p_y = 20, p_vx = 1, p_vy = 2\<rparr>;
       b = \<lparr>p_x = 10, p_y = 20, p_vx = -3, p_vy = 4\<rparr>;
       P = [''s'' \<mapsto> a, ''t'' \<mapsto> b];
       l = \<lparr>source = ''s'', target = ''t''\<rparr>
   in p_x a = p_x b \<and> p_y a = p_y b
      \<and> distance_or_1 (p_x b - p_x a) (p_y b - p_y a) = 1
      \<and> repulsion_force (distance_or_1 (p_x b - p_x a) (p_y b - p_y a)) = -150
      \<and> repel a b = a
      \<and> P (source l) = Some a \<and> P (target l) = Some b
      \<and> link_force (distance_or_1 (p_x b - p_x a) (p_y b - p_y a)) = -4.14
      \<and> spring l P = P"
  using zero_distance_clamped
    [of 3 4 "\<lparr>p_x = 10, p_y = 20, p_vx = 1, p_vy = 2\<rparr>"
        "\<lparr>p_x = 10, p_y = 20, p_vx = -3, p_vy = 4\<rparr>"
        "[''s'' \<mapsto> \<lparr>p_x = 10, p_y = 20, p_vx = 1, p_vy = 2\<rparr>,
          ''t'' \<mapsto> \<lparr>p_x = 10, p_y = 20, p_vx = -3, p_vy = 4\<rparr>]"
        "\<lparr>source = ''s'', target = ''t''\<rparr>"
        "\<lparr>p_x = 10, p_y = 20, p_vx = 1, p_vy = 2\<rparr>"
        "\<lparr>p_x = 10, p_y = 20, p_vx = -3, p_vy = 4\<rparr>"]
  by (simp add: Let_def distance_or_1_def repulsion_force_def link_force_def
      REPULSION_STRENGTH_def LINK_DISTANCE_def LINK_STRENGTH_def)

theorem settled_simulation_halts_witness:
  "let a = \<lparr>node_id = ''a'', radius = 5, masteryScore = None, node_type = ''question''\<rparr>;
       P = [''a'' \<mapsto> \<lparr>p_x = 100, p_y = 100, p_vx = 0.01, p_vy = 0\<rparr>];
       d = \<lparr>width = 200, height = 200\<rparr>;
       moving = \<lparr>nodePositions = P, isStable = False\<rparr>;
       settled = \<lparr>nodePositions = P, isStable = True\<rparr>
   in \<not> isStable moving
      \<and> graph_tick [a] [] d None (nodePositions moving)
          = ([''a'' \<mapsto> \<lparr>p_x = 100.009, p_y = 100, p_vx = 0.009, p_vy = 0\<rparr>], 0.000081)
      \<and> snd (graph_tick [a] [] d None (nodePositions moving)) < ENERGY_THRESHOLD
      \<and> isStable (runGraphSimulation [a] [] d None moving)
      \<and> isStable settled
      \<and> runGraphSimulation [a] [] d None settled = settled
      \<and> ((runGraphSimulation [a] [] d None) ^^ 3) settled = settled"
  using settled_simulation_halts
    [of "[\<lparr>node_id = ''a'', radius = 5, masteryScore = None, node_type = ''question''\<rparr>]"
        "[]" "\<lparr>width = 200, height = 200\<rparr>"
        "\<lparr>nodePositions = [''a'' \<mapsto> \<lparr>p_x = 100, p_y = 100, p_vx = 0.01, p_vy = 0\<rparr>],
          isStable = False\<rparr>"
        "\<lparr>nodePositions = [''a'' \<mapsto> \<lparr>p_x = 100, p_y = 100, p_vx = 0.01, p_vy = 0\<rparr>],
          isStable = True\<rparr>"
        "[\<lparr>node_id = ''a'', radius = 5, masteryScore = None, node_type = ''question''\<rparr>]"
        "[]" "\<lparr>width = 200, height = 200\<rparr>" 3]
  by (simp add: Let_def graph_tick_def center_and_repel_def integrate_def
      CENTER_STRENGTH_def DAMPING_def ENERGY_THRESHOLD_def)

section \<open>The focus path\<close>

lemma collect_descendants_Nil: "collect_descendants cm [] acc = Some acc"
  by (subst collect_descendants.simps) simp

lemma collect_descendants_Cons:
  "collect_descendants cm (x # rest) acc
   = collect_descendants cm (rest @ children_of cm x) (insert x acc)"
  by (subst collect_descendants.simps) simp

lemma child_rel_Image: "child_rel cm `` {x} = set (children_of cm x)"
  by (auto simp: child_rel_def)

lemma rtrancl_Image_step: "R\<^sup>* `` {x} = insert x (R\<^sup>* `` (R `` {x}))"
proof
  show "R\<^sup>* `` {x} \<subseteq> insert x (R\<^sup>* `` (R `` {x}))"
  proof
    fix y assume "y \<in> R\<^sup>* `` {x}"
    then have "(x, y) \<in> R\<^sup>*" by simp
    then show "y \<in> insert x (R\<^sup>* `` (R `` {x}))"
      by (cases rule: converse_rtranclE) auto
  qed
  show "insert x (R\<^sup>* `` (R `` {x})) \<subseteq> R\<^sup>* `` {x}"
    by (auto intro: converse_rtrancl_into_rtrancl)
qed

lemma collect_descendants_total:
  assumes wf: "wf ((child_rel cm)\<inverse>)"
  shows "collect_descendants cm queue acc = Some (acc \<union> (child_rel cm)\<^sup>* `` set queue)"
proof -
  let ?R = "child_rel cm"
  have "\<forall>queue acc. mset queue = M \<longrightarrow>
          collect_descendants cm queue acc = Some (acc \<union> ?R\<^sup>* `` set queue)" for M
  proof (induction M rule: wf_induct [OF wf_mult [OF wf]])
    case (1 M)
    show ?case
    proof (intro allI impI)
      fix queue acc assume M: "mset queue = M"
      show "collect_descendants cm queue acc = Some (acc \<union> ?R\<^sup>* `` set queue)"
      proof (cases queue)
        case Nil
        then show ?thesis by (simp add: collect_descendants_Nil)
      next
        case (Cons x rest)
        let ?cs = "children_of cm x"
        have "(mset rest + mset ?cs, add_mset x (mset rest)) \<in> mult1 (?R\<inverse>)"
          by (rule mult1I [where a = x and ?M0.0 = "mset rest" and K = "mset ?cs"])
            (auto simp: child_rel_def)
        then have "(mset (rest @ ?cs), M) \<in> mult (?R\<inverse>)"
          using M Cons by (auto simp: mult_def)
        with 1 have "collect_descendants cm (rest @ ?cs) (insert x acc)
            = Some (insert x acc \<union> ?R\<^sup>* `` set (rest @ ?cs))"
          by blast
        moreover have "insert x acc \<union> ?R\<^sup>* `` set (rest @ ?cs) = acc \<union> ?R\<^sup>* `` set (x # rest)"
        proof -
          have "?R\<^sup>* `` set (x # rest) = ?R\<^sup>* `` {x} \<union> ?R\<^sup>* `` set rest" by auto
          also have "?R\<^sup>* `` {x} = insert x (?R\<^sup>* `` set ?cs)"
            using rtrancl_Image_step [of ?R x] by (simp add: child_rel_Image)
          finally show ?thesis by auto
        qed
        ultimately show ?thesis using Cons by (simp add: collect_descendants_Cons)
      qed
    qed
  qed
  then show ?thesis by blast
qed

lemma init_children:
  "fold (\<lambda>node cMap. cMap(node_id node \<mapsto> [])) nodes m p
   = (if p \<in> node_id ` set nodes then Some [] else m p)"
  by (induction nodes arbitrary: m) auto

lemma push_children:
  "fold (\<lambda>link cMap.
           case cMap (source link) of
             None \<Rightarrow> cMap
           | Some children \<Rightarrow> cMap(source link \<mapsto> children @ [target link])) links m p
   = (case m p of
        None \<Rightarrow> None
      | Some cs \<Rightarrow> Some (cs @ map target (filter (\<lambda>l. source l = p) links)))"
proof (induction links arbitrary: m)
  case Nil
  then show ?case by (simp split: option.splits)
next
  case (Cons l ls)
  then show ?case by (cases "m (source l)") (auto split: option.splits)
qed

lemma children_of_build:
  "children_of (build_childrenMap nodes links) p
   = (if p \<in> node_id ` set nodes then map target (filter (\<lambda>l. source l = p) links) else [])"
  by (simp add: children_of_def build_childrenMap_def push_children init_children)

lemma child_rel_build: "child_rel (build_childrenMap nodes links) = link_rel nodes links"
  by (force simp: child_rel_def link_rel_def children_of_build)

lemma finite_link_rel: "finite (link_rel nodes links)"
proof -
  have "link_rel nodes links \<subseteq> (\<lambda>l. (source l, target l)) ` set links"
    by (auto simp: link_rel_def)
  then show ?thesis by (rule finite_subset) simp
qed

lemma pathLinks_consecutive:
  "map (\<lambda>i. \<lparr>source = node_id (xs ! i), target = node_id (xs ! (i + 1))\<rparr>) [0 ..< length xs - 1]
   = map2 (\<lambda>a b. \<lparr>source = node_id a, target = node_id b\<rparr>) xs (tl xs)"
  by (rule nth_equalityI) (auto simp: nth_tl)

lemma focus_path_acyclic:
  assumes "acyclic (link_rel nodes links)"
  shows "focus_path nodes (build_childrenMap nodes links) (Some w) =
     Some (sort_key mastery_or_0
             (filter (\<lambda>n. node_type n = ''question''
                        \<and> (node_id w, node_id n) \<in> (link_rel nodes links)\<^sup>*) nodes),
           map2 (\<lambda>a b. \<lparr>source = node_id a, target = node_id b\<rparr>)
             (sort_key mastery_or_0
               (filter (\<lambda>n. node_type n = ''question''
                        \<and> (node_id w, node_id n) \<in> (link_rel nodes links)\<^sup>*) nodes))
             (tl (sort_key mastery_or_0
               (filter (\<lambda>n. node_type n = ''question''
                        \<and> (node_id w, node_id n) \<in> (link_rel nodes links)\<^sup>*) nodes))),
           (if node_type w = ''subject''
            then insert (node_id w) (node_id ` {n \<in> set nodes. node_type n = ''question''
                        \<and> (node_id w, node_id n) \<in> (link_rel nodes links)\<^sup>*})
                   \<union> set (children_of (build_childrenMap nodes links) (node_id w))
            else insert (node_id w) (node_id ` {n \<in> set nodes. node_type n = ''question''
                        \<and> (node_id w, node_id n) \<in> (link_rel nodes links)\<^sup>*})))"
proof -
  have "wf ((child_rel (build_childrenMap nodes links))\<inverse>)"
    unfolding child_rel_build using finite_link_rel assms by (rule finite_acyclic_wf_converse)
  then have "collect_descendants (build_childrenMap nodes links) [node_id w] {}
      = Some ((link_rel nodes links)\<^sup>* `` {node_id w})"
    using collect_descendants_total [of "build_childrenMap nodes links" "[node_id w]" "{}"]
    by (simp add: child_rel_build)
  then show ?thesis
    using pathLinks_consecutive by (simp add: focus_path_def Let_def del: length_sort)
qed


text \<open>
  C4. When the links form no cycle, the focus path of a chosen node \<open>w\<close> is computed
  (the descent terminates), and it consists of exactly the question nodes reachable
  from \<open>w\<close> along the links, in ascending order of weight, nodes of equal weight in
  their input order; the path links join each node of that order to the next.
\<close>

theorem focus_path_sorted_leaves:
  assumes "acyclic (link_rel nodes links)"
  shows "\<exists>sortedQuestions pathLinks pathIds.
      focus_path nodes (build_childrenMap nodes links) (Some w)
        = Some (sortedQuestions, pathLinks, pathIds)
      \<and> sorted (map mastery_or_0 sortedQuestions)
      \<and> mset sortedQuestions
          = mset (filter (\<lambda>n. node_type n = ''question''
                            \<and> (node_id w, node_id n) \<in> (link_rel nodes links)\<^sup>*) nodes)
      \<and> (\<forall>k. filter (\<lambda>n. mastery_or_0 n = k) sortedQuestions
             = filter (\<lambda>n. mastery_or_0 n = k)
                 (filter (\<lambda>n. node_type n = ''question''
                            \<and> (node_id w, node_id n) \<in> (link_rel nodes links)\<^sup>*) nodes))
      \<and> pathLinks = map2 (\<lambda>a b. \<lparr>source = node_id a, target = node_id b\<rparr>)
                       sortedQuestions (tl sortedQuestions)"
  unfolding focus_path_acyclic [OF assms]
  by (simp add: sort_key_stable)

theorem focus_path_sorted_leaves_witness:
  "let s = \<lparr>node_id = ''subject-S'', radius = 14, masteryScore = Some 50, node_type = ''subject''\<rparr>;
       t = \<lparr>node_id = ''topic-S-T'', radius = 10, masteryScore = Some 50, node_type = ''topic''\<rparr>;
       q1 = \<lparr>node_id = ''q1'', radius = 5, masteryScore = Some 80, node_type = ''question''\<rparr>;
       q2 = \<lparr>node_id = ''q2'', radius = 5, masteryScore = Some 20, node_type = ''question''\<rparr>;
       q3 = \<lparr>node_id = ''q3'', radius = 5, masteryScore = Some 50, node_type = ''question''\<rparr>;
       ls = [\<lparr>source = ''subject-S'', target = ''topic-S-T''\<rparr>,
             \<lparr>source = ''topic-S-T'', target = ''q1''\<rparr>,
             \<lparr>source = ''topic-S-T'', target = ''q2''\<rparr>,
             \<lparr>source = ''topic-S-T'', target = ''q3''\<rparr>]
   in acyclic (link_rel [s, t, q1, q2, q3] ls)
      \<and> map mastery_or_0 [q1, q2, q3] = [80, 20, 50]
      \<and> focus_path [s, t, q1, q2, q3] (build_childrenMap [s, t, q1, q2, q3] ls) (Some s)
          = Some ([q2, q3, q1],
                  [\<lparr>source = ''q2'', target = ''q3''\<rparr>, \<lparr>source = ''q3'', target = ''q1''\<rparr>],
                  {''subject-S'', ''topic-S-T'', ''q1'', ''q2'', ''q3''})
      \<and> map mastery_or_0 [q2, q3, q1] = [20, 50, 80]"
proof -
  let ?s = "\<lparr>node_id = ''subject-S'', radius = 14, masteryScore = Some 50, node_type = ''subject''\<rparr>"
  let ?t = "\<lparr>node_id = ''topic-S-T'', radius = 10, masteryScore = Some 50, node_type = ''topic''\<rparr>"
  let ?q1 = "\<lparr>node_id = ''q1'', radius = 5, masteryScore = Some 80, node_type = ''question''\<rparr>"
  let ?q2 = "\<lparr>node_id = ''q2'', radius = 5, masteryScore = Some 20, node_type = ''question''\<rparr>"
  let ?q3 = "\<lparr>node_id = ''q3'', radius = 5, masteryScore = Some 50, node_type = ''question''\<rparr>"
  let ?ls = "[\<lparr>source = ''subject-S'', target = ''topic-S-T''\<rparr>,
             \<lparr>source = ''topic-S-T'', target = ''q1''\<rparr>,
             \<lparr>source = ''topic-S-T'', target = ''q2''\<rparr>,
             \<lparr>source = ''topic-S-T'', target = ''q3''\<rparr>]"
  let ?depth = "\<lambda>i. if i = ''subject-S'' then 2 else if i = ''topic-S-T'' then 1 else (0::nat)"
  have ac: "acyclic (link_rel [?s, ?t, ?q1, ?q2, ?q3] ?ls)"
    by (rule acyclicI_order [where f = ?depth]) (auto simp: link_rel_def)
  have cm: "children_of (build_childrenMap [?s, ?t, ?q1, ?q2, ?q3] ?ls) i
      = (if i = ''subject-S'' then [''topic-S-T'']
         else if i = ''topic-S-T'' then [''q1'', ''q2'', ''q3''] else [])" for i
    by (simp add: children_of_build)
  show ?thesis
    using ac focus_path_sorted_leaves [OF ac, of ?s]
    by (simp add: Let_def focus_path_def collect_descendants_Cons collect_descendants_Nil cm
        mastery_or_0_def insert_commute)
qed

section \<open>Orbit mode: jitter and determinism\<close>







lemma sin_lower: "x - x ^ 3 / 6 \<le> sin x" if "0 \<le> x" for x :: real
proof -
  have "\<bar>sin x - (\<Sum>m<3. sin_coeff m * x ^ m)\<bar> \<le> inverse (fact 3) * \<bar>x\<bar> ^ 3"
    by (rule Maclaurin_sin_bound)
  moreover have "(\<Sum>m<3. sin_coeff m * x ^ m) = x"
    by (simp add: sin_coeff_def eval_nat_numeral)
  moreover have "inverse (fact 3) * \<bar>x\<bar> ^ 3 = x ^ 3 / 6"
    using that by (simp add: eval_nat_numeral)
  ultimately have "\<bar>sin x - x\<bar> \<le> x ^ 3 / 6" by simp
  then show ?thesis by linarith
qed





section \<open>Orbit mode: radius and weight\<close>

lemma radial_distance_target:
  "radial_distance dims (orbit_target dims n a)
   = \<bar>radiusFactor n\<bar> * sqrt ((cos a * (width dims / 2 * 0.9))\<^sup>2 + (sin a * (height dims / 2 * 0.9))\<^sup>2)"
proof -
  have "(cos a * (width dims / 2 * 0.9) * radiusFactor n)\<^sup>2 + (sin a * (height dims / 2 * 0.9) * radiusFactor n)\<^sup>2
      = (radiusFactor n)\<^sup>2 * ((cos a * (width dims / 2 * 0.9))\<^sup>2 + (sin a * (height dims / 2 * 0.9))\<^sup>2)"
    by (simp add: power2_eq_square algebra_simps)
  then show ?thesis
    by (simp add: radial_distance_def orbit_target_def Let_def real_sqrt_mult)
qed

lemma ellipse_lower:
  fixes m rx ry a :: real
  assumes "0 \<le> m" "m \<le> rx" "m \<le> ry"
  shows "m\<^sup>2 \<le> (cos a * rx)\<^sup>2 + (sin a * ry)\<^sup>2"
proof -
  have "m\<^sup>2 \<le> rx\<^sup>2" "m\<^sup>2 \<le> ry\<^sup>2" using assms by (auto intro!: power_mono)
  then have "(cos a)\<^sup>2 * m\<^sup>2 \<le> (cos a)\<^sup>2 * rx\<^sup>2" "(sin a)\<^sup>2 * m\<^sup>2 \<le> (sin a)\<^sup>2 * ry\<^sup>2"
    by (simp_all add: mult_left_mono)
  then have "(cos a)\<^sup>2 * m\<^sup>2 + (sin a)\<^sup>2 * m\<^sup>2 \<le> (cos a)\<^sup>2 * rx\<^sup>2 + (sin a)\<^sup>2 * ry\<^sup>2"
    by (rule add_mono)
  moreover have "(cos a)\<^sup>2 * m\<^sup>2 + (sin a)\<^sup>2 * m\<^sup>2 = ((cos a)\<^sup>2 + (sin a)\<^sup>2) * m\<^sup>2"
    by (simp only: distrib_right)
  ultimately show ?thesis by (simp add: power_mult_distrib)
qed

lemma ellipse_upper:
  fixes M rx ry a :: real
  assumes "0 \<le> rx" "rx \<le> M" "0 \<le> ry" "ry \<le> M"
  shows "(cos a * rx)\<^sup>2 + (sin a * ry)\<^sup>2 \<le> M\<^sup>2"
proof -
  have "rx\<^sup>2 \<le> M\<^sup>2" "ry\<^sup>2 \<le> M\<^sup>2" using assms by (auto intro!: power_mono)
  then have "(cos a)\<^sup>2 * rx\<^sup>2 \<le> (cos a)\<^sup>2 * M\<^sup>2" "(sin a)\<^sup>2 * ry\<^sup>2 \<le> (sin a)\<^sup>2 * M\<^sup>2"
    by (simp_all add: mult_left_mono)
  then have "(cos a)\<^sup>2 * rx\<^sup>2 + (sin a)\<^sup>2 * ry\<^sup>2 \<le> (cos a)\<^sup>2 * M\<^sup>2 + (sin a)\<^sup>2 * M\<^sup>2"
    by (rule add_mono)
  moreover have "(cos a)\<^sup>2 * M\<^sup>2 + (sin a)\<^sup>2 * M\<^sup>2 = ((cos a)\<^sup>2 + (sin a)\<^sup>2) * M\<^sup>2"
    by (simp only: distrib_right)
  ultimately show ?thesis by (simp add: power_mult_distrib)
qed

lemma scaled_less: "M < 21 * m \<Longrightarrow> M / 21 < (m::real)"
  by simp

lemma same_angle_monotone:
  assumes w: "0 < width dims" and h: "0 < height dims"
    and a: "masteryScore na = Some wa" and b: "masteryScore nb = Some wb"
    and lt: "wa < wb" and le: "wb \<le> 105"
  shows "radial_distance dims (orbit_target dims nb ang) < radial_distance dims (orbit_target dims na ang)"
proof -
  let ?rx = "width dims / 2 * 0.9" and ?ry = "height dims / 2 * 0.9"
  let ?E = "sqrt ((cos ang * ?rx)\<^sup>2 + (sin ang * ?ry)\<^sup>2)"
  let ?m = "min ?rx ?ry"
  have m: "0 < ?m" using w h by simp
  have "?m\<^sup>2 \<le> (cos ang * ?rx)\<^sup>2 + (sin ang * ?ry)\<^sup>2"
    using m by (intro ellipse_lower) simp_all
  moreover have "0 < ?m\<^sup>2" using m by (rule zero_less_power)
  ultimately have "0 < (cos ang * ?rx)\<^sup>2 + (sin ang * ?ry)\<^sup>2" by linarith
  then have E: "0 < ?E" by simp
  have rf: "0 \<le> radiusFactor nb" "radiusFactor nb < radiusFactor na"
    using a b lt le by (simp_all add: radiusFactor_def)
  then have "\<bar>radiusFactor nb\<bar> < \<bar>radiusFactor na\<bar>" by simp
  then have "\<bar>radiusFactor nb\<bar> * ?E < \<bar>radiusFactor na\<bar> * ?E"
    using E by (rule mult_strict_right_mono)
  then show ?thesis by (simp only: radial_distance_target)
qed

lemma extremes_any_angle:
  assumes w: "0 < width dims" and h: "0 < height dims"
    and r1: "width dims < 21 * height dims" and r2: "height dims < 21 * width dims"
    and a: "masteryScore na = Some 0" and b: "masteryScore nb = Some 100"
  shows "radial_distance dims (orbit_target dims nb angb) < radial_distance dims (orbit_target dims na anga)"
proof -
  let ?rx = "width dims / 2 * 0.9" and ?ry = "height dims / 2 * 0.9"
  let ?m = "min ?rx ?ry" and ?M = "max ?rx ?ry"
  have m: "0 < ?m" using w h by simp
  have Mm: "?M < 21 * ?m" using r1 r2 w h by (simp add: max_def min_def)
  have lo: "?m\<^sup>2 \<le> (cos anga * ?rx)\<^sup>2 + (sin anga * ?ry)\<^sup>2"
    using m by (intro ellipse_lower) simp_all
  have hi: "(cos angb * ?rx)\<^sup>2 + (sin angb * ?ry)\<^sup>2 \<le> ?M\<^sup>2"
    using w h by (intro ellipse_upper) simp_all
  have "sqrt ((cos angb * ?rx)\<^sup>2 + (sin angb * ?ry)\<^sup>2) \<le> sqrt (?M\<^sup>2)"
    using hi by (rule real_sqrt_le_mono)
  then have 1: "sqrt ((cos angb * ?rx)\<^sup>2 + (sin angb * ?ry)\<^sup>2) \<le> ?M" using w h by (simp add: max_def)
  have "sqrt (?m\<^sup>2) \<le> sqrt ((cos anga * ?rx)\<^sup>2 + (sin anga * ?ry)\<^sup>2)"
    using lo by (rule real_sqrt_le_mono)
  then have 2: "?m \<le> sqrt ((cos anga * ?rx)\<^sup>2 + (sin anga * ?ry)\<^sup>2)" using m by (simp add: min_def)
  have fa: "\<bar>radiusFactor na\<bar> = 1" using a by (simp add: radiusFactor_def)
  have fb: "\<bar>radiusFactor nb\<bar> = 1 / 21" using b by (simp add: radiusFactor_def)
  have "1 / 21 * sqrt ((cos angb * ?rx)\<^sup>2 + (sin angb * ?ry)\<^sup>2) \<le> ?M / 21" using 1 by simp
  also have "\<dots> < ?m" using Mm by (rule scaled_less)
  also have "\<dots> \<le> 1 * sqrt ((cos anga * ?rx)\<^sup>2 + (sin anga * ?ry)\<^sup>2)" using 2 by simp
  finally show ?thesis by (simp only: radial_distance_target fa fb)
qed

lemma sector_base:
  "baseAngle
     (build_parentMap
        [\<lparr>node_id = ''subject-S'', radius = 14, masteryScore = Some 1, node_type = ''subject''\<rparr>,
         \<lparr>node_id = ''q1'', radius = 5, masteryScore = Some 0, node_type = ''question''\<rparr>,
         \<lparr>node_id = ''q2'', radius = 5, masteryScore = Some 1, node_type = ''question''\<rparr>]
        [\<lparr>source = ''subject-S'', target = ''q1''\<rparr>, \<lparr>source = ''subject-S'', target = ''q2''\<rparr>])
     (subjectAngles
        [\<lparr>node_id = ''subject-S'', radius = 14, masteryScore = Some 1, node_type = ''subject''\<rparr>,
         \<lparr>node_id = ''q1'', radius = 5, masteryScore = Some 0, node_type = ''question''\<rparr>,
         \<lparr>node_id = ''q2'', radius = 5, masteryScore = Some 1, node_type = ''question''\<rparr>])
     \<lparr>node_id = q, radius = 5, masteryScore = m, node_type = ''question''\<rparr> = 0"
  if "q = ''q1'' \<or> q = ''q2''"
  using that
  by (auto simp: baseAngle_def getRootSubjectId_def eval_nat_numeral starts_with_subject_def
      subjectAngles_def build_parentMap_def)

lemma jittered_ellipse:
  "sqrt ((cos (19 / 100) * 720)\<^sup>2 + (sin (19 / 100) * 405)\<^sup>2) < (104 / 105 * 720 :: real)"
proof -
  let ?s = "sin (19 / 100 :: real)" and ?c = "cos (19 / 100 :: real)"
  have "(19 / 100 :: real) - (19 / 100) ^ 3 / 6 \<le> ?s"
    by (rule sin_lower) simp
  then have s: "(188 / 1000 :: real) \<le> ?s" by (simp add: eval_nat_numeral)
  have "(188 / 1000 :: real)\<^sup>2 \<le> ?s\<^sup>2"
    using s by (intro power_mono) simp_all
  then have s2: "(35344 / 1000000 :: real) \<le> ?s\<^sup>2" by (simp add: power2_eq_square)
  have c2: "?c\<^sup>2 = 1 - ?s\<^sup>2" by (simp add: cos_squared_eq)
  have "(?c * 720)\<^sup>2 + (?s * 405)\<^sup>2 = 518400 * ?c\<^sup>2 + 164025 * ?s\<^sup>2"
    by (simp add: power_mult_distrib)
  also have "\<dots> = 518400 - 354375 * ?s\<^sup>2" by (simp add: c2)
  also have "\<dots> < (104 / 105 * 720)\<^sup>2" using s2 by (simp add: power2_eq_square)
  finally show ?thesis by (intro real_less_lsqrt) simp_all
qed

text \<open>
  C5, as stated, fails for two nodes of one sector whose jitters differ, because the
  orbit is an ellipse. In a 1600 by 900 viewport, two questions under the same subject
  (base angle 0) with weights 0 and 1: with the draws 0.975 and 0.5 the target of the
  weight-0 node is nearer to the centre than the target of the weight-1 node.
\<close>

theorem orbit_radius_jitter_counterexample:
  "baseAngle
     (build_parentMap
        [\<lparr>node_id = ''subject-S'', radius = 14, masteryScore = Some 1, node_type = ''subject''\<rparr>,
         \<lparr>node_id = ''q1'', radius = 5, masteryScore = Some 0, node_type = ''question''\<rparr>,
         \<lparr>node_id = ''q2'', radius = 5, masteryScore = Some 1, node_type = ''question''\<rparr>]
        [\<lparr>source = ''subject-S'', target = ''q1''\<rparr>, \<lparr>source = ''subject-S'', target = ''q2''\<rparr>])
     (subjectAngles
        [\<lparr>node_id = ''subject-S'', radius = 14, masteryScore = Some 1, node_type = ''subject''\<rparr>,
         \<lparr>node_id = ''q1'', radius = 5, masteryScore = Some 0, node_type = ''question''\<rparr>,
         \<lparr>node_id = ''q2'', radius = 5, masteryScore = Some 1, node_type = ''question''\<rparr>])
     \<lparr>node_id = ''q1'', radius = 5, masteryScore = Some 0, node_type = ''question''\<rparr> = 0
   \<and> baseAngle
     (build_parentMap
        [\<lparr>node_id = ''subject-S'', radius = 14, masteryScore = Some 1, node_type = ''subject''\<rparr>,
         \<lparr>node_id = ''q1'', radius = 5, masteryScore = Some 0, node_type = ''question''\<rparr>,
         \<lparr>node_id = ''q2'', radius = 5, masteryScore = Some 1, node_type = ''question''\<rparr>]
        [\<lparr>source = ''subject-S'', target = ''q1''\<rparr>, \<lparr>source = ''subject-S'', target = ''q2''\<rparr>])
     (subjectAngles
        [\<lparr>node_id = ''subject-S'', radius = 14, masteryScore = Some 1, node_type = ''subject''\<rparr>,
         \<lparr>node_id = ''q1'', radius = 5, masteryScore = Some 0, node_type = ''question''\<rparr>,
         \<lparr>node_id = ''q2'', radius = 5, masteryScore = Some 1, node_type = ''question''\<rparr>])
     \<lparr>node_id = ''q2'', radius = 5, masteryScore = Some 1, node_type = ''question''\<rparr> = 0
   \<and> radial_distance \<lparr>width = 1600, height = 900\<rparr>
        (orbit_target \<lparr>width = 1600, height = 900\<rparr>
           \<lparr>node_id = ''q1'', radius = 5, masteryScore = Some 0, node_type = ''question''\<rparr>
           (0 + jitter \<lparr>node_id = ''q1'', radius = 5, masteryScore = Some 0, node_type = ''question''\<rparr> 0.975))
      < radial_distance \<lparr>width = 1600, height = 900\<rparr>
        (orbit_target \<lparr>width = 1600, height = 900\<rparr>
           \<lparr>node_id = ''q2'', radius = 5, masteryScore = Some 1, node_type = ''question''\<rparr>
           (0 + jitter \<lparr>node_id = ''q2'', radius = 5, masteryScore = Some 1, node_type = ''question''\<rparr> 0.5))"
  using jittered_ellipse
  by (simp add: sector_base radial_distance_target jitter_def radiusFactor_def)


text \<open>
  C5 (amended). The radius factor \<^verbatim>\<open>1 - weight / 105\<close> is strictly decreasing in the
  weight. For a viewport of positive width and height and two nodes whose targets lie
  at the same angle, the node of lower weight has the target farther from the centre
  (weights up to 105). For weights 0 and 100 this holds at any two angles as long as
  neither side of the viewport is 21 times the other or more.
\<close>

theorem orbit_radius_monotone:
  "(masteryScore na = Some wa \<and> masteryScore nb = Some wb \<and> wa < wb
      \<longrightarrow> radiusFactor nb < radiusFactor na)
   \<and> (0 < width dims \<and> 0 < height dims
        \<and> masteryScore na = Some wa \<and> masteryScore nb = Some wb \<and> wa < wb \<and> wb \<le> 105
      \<longrightarrow> radial_distance dims (orbit_target dims nb ang)
          < radial_distance dims (orbit_target dims na ang))
   \<and> (0 < width dims \<and> 0 < height dims
        \<and> width dims < 21 * height dims \<and> height dims < 21 * width dims
        \<and> masteryScore n0 = Some 0 \<and> masteryScore n100 = Some 100
      \<longrightarrow> radial_distance dims (orbit_target dims n100 ang100)
          < radial_distance dims (orbit_target dims n0 ang0))"
proof (intro conjI impI)
  assume "masteryScore na = Some wa \<and> masteryScore nb = Some wb \<and> wa < wb"
  then show "radiusFactor nb < radiusFactor na"
    by (simp add: radiusFactor_def)
next
  assume "0 < width dims \<and> 0 < height dims
        \<and> masteryScore na = Some wa \<and> masteryScore nb = Some wb \<and> wa < wb \<and> wb \<le> 105"
  then show "radial_distance dims (orbit_target dims nb ang)
          < radial_distance dims (orbit_target dims na ang)"
    by (intro same_angle_monotone [of dims na wa nb wb]) simp_all
next
  assume "0 < width dims \<and> 0 < height dims
        \<and> width dims < 21 * height dims \<and> height dims < 21 * width dims
        \<and> masteryScore n0 = Some 0 \<and> masteryScore n100 = Some 100"
  then show "radial_distance dims (orbit_target dims n100 ang100)
          < radial_distance dims (orbit_target dims n0 ang0)"
    by (intro extremes_any_angle) simp_all
qed


theorem orbit_radius_monotone_witness:
  "let n0 = \<lparr>node_id = ''q1'', radius = 5, masteryScore = Some 0, node_type = ''question''\<rparr>;
       n100 = \<lparr>node_id = ''q2'', radius = 5, masteryScore = Some 100, node_type = ''question''\<rparr>;
       d = \<lparr>width = 1600, height = 900\<rparr>
   in masteryScore n0 = Some 0 \<and> masteryScore n100 = Some 100 \<and> (0::real) < 100
      \<and> (100::real) \<le> 105
      \<and> 0 < width d \<and> 0 < height d \<and> width d < 21 * height d \<and> height d < 21 * width d
      \<and> radiusFactor n0 = 1 \<and> radiusFactor n100 = 1 / 21
      \<and> radiusFactor n100 < radiusFactor n0
      \<and> radial_distance d (orbit_target d n100 (1 / 10))
          < radial_distance d (orbit_target d n0 (1 / 10))
      \<and> radial_distance d (orbit_target d n100 (1 / 5))
          < radial_distance d (orbit_target d n0 (- (1 / 5)))"
  using orbit_radius_monotone
    [of "\<lparr>node_id = ''q1'', radius = 5, masteryScore = Some 0, node_type = ''question''\<rparr>" 0
        "\<lparr>node_id = ''q2'', radius = 5, masteryScore = Some 100, node_type = ''question''\<rparr>" 100
        "\<lparr>width = 1600, height = 900\<rparr>" "1 / 10"
        "\<lparr>node_id = ''q1'', radius = 5, masteryScore = Some 0, node_type = ''question''\<rparr>"
        "\<lparr>node_id = ''q2'', radius = 5, masteryScore = Some 100, node_type = ''question''\<rparr>"
        "1 / 5" "- (1 / 5)"]
  by (simp add: Let_def radiusFactor_def)

end
